theory Spec2Isabelle
  imports Main "HOL-Library.Sublist" "HOL-Library.Word"
begin

section \<open>JavaScript strings\<close>

text \<open>
  A JavaScript string is a sequence of code units; the model writes it as a \<open>string\<close>,
  one \<open>char\<close> per code unit, which covers the code units below 256 (Latin-1).
  The string methods the program calls are written out below.
\<close>

definition startsWith :: "string \<Rightarrow> string \<Rightarrow> bool" where
  "startsWith s p = (take (length p) s = p)"

definition endsWith :: "string \<Rightarrow> string \<Rightarrow> bool" where
  "endsWith s p = (length p \<le> length s \<and> drop (length s - length p) s = p)"

text \<open>\<open>Array.prototype.includes\<close> on an array of strings.\<close>

definition includes_str :: "string list \<Rightarrow> string \<Rightarrow> bool" where
  "includes_str xs x = (x \<in> set xs)"

text \<open>
  \<open>String.prototype.replace\<close> with a string pattern: only the first occurrence is
  replaced (the replacements used by the program contain no \<open>$\<close> pattern).
\<close>

fun replace :: "string \<Rightarrow> string \<Rightarrow> string \<Rightarrow> string" where
  "replace pat rep [] = (if pat = [] then rep else [])"
| "replace pat rep (c # cs) =
     (if startsWith (c # cs) pat then rep @ drop (length pat) (c # cs)
      else c # replace pat rep cs)"

text \<open>\<open>.replace(/\/$/, '')\<close>: one trailing slash is removed when there is one.\<close>

definition strip_trailing_slash :: "string \<Rightarrow> string" where
  "strip_trailing_slash s = (if s \<noteq> [] \<and> last s = CHR ''/'' then butlast s else s)"

text \<open>
  \<open>String.prototype.toLowerCase\<close> on code units below 256: the ASCII capitals and the
  Latin-1 capitals 0xC0..0xDE (0xD7, the multiplication sign, apart) move up by 32.
\<close>

definition lower_char :: "char \<Rightarrow> char" where
  "lower_char c =
     (let n = (of_char c :: nat)
      in if (65 \<le> n \<and> n \<le> 90) \<or> (192 \<le> n \<and> n \<le> 222 \<and> n \<noteq> 215)
         then char_of (n + 32) else c)"

definition toLowerCase :: "string \<Rightarrow> string" where
  "toLowerCase s = map lower_char s"

section \<open>The navigation validator (main process)\<close>

definition validTlds :: "string list" where
  "validTlds = [''.vc'', ''.vmc'', ''.at'', ''.lit'']"

definition isSystemPage :: "string \<Rightarrow> bool" where
  "isSystemPage url =
     (url = ''virt://register.at'' \<or> url = ''virt://lookin.at'' \<or> url = ''virt://v12browser.vc'')"

definition hasValidTld :: "string \<Rightarrow> bool" where
  "hasValidTld url = list_ex (\<lambda>tld. endsWith url tld) validTlds"

definition isValidVirtUrl :: "string \<Rightarrow> bool" where
  "isValidVirtUrl url = (startsWith url ''virt://'' \<and> (isSystemPage url \<or> hasValidTld url))"

section \<open>The Site schema (backend/models/Site.js)\<close>

text \<open>
  A stored document. Optional string paths (\<open>title\<close>, \<open>description\<close>, \<open>bodyText\<close>)
  are \<open>None\<close> while undefined; dates are numbers of milliseconds.
\<close>

record site =
  domain :: string
  tld :: string
  target :: string
  secretKeyHash :: string
  title :: "string option"
  description :: "string option"
  verified :: bool
  createdAt :: nat
  lastAccessed :: nat
  keywords_path :: "string list"
  bodyText :: "string option"
  indexedAt :: nat

definition TLDS :: "string list" where
  "TLDS = [''vc'', ''vmc'', ''at'', ''lit'']"

definition is_digit :: "char \<Rightarrow> bool" where
  "is_digit c = (c \<in> set ''0123456789'')"

text \<open>
  \<open>/^https:\/\/.+/\<close>: the prefix, then at least one character that is not a line
  terminator (the dot matches neither line feed nor carriage return).
\<close>

definition is_https_url :: "string \<Rightarrow> bool" where
  "is_https_url v =
     (startsWith v ''https://'' \<and>
      (case drop 8 v of [] \<Rightarrow> False | c # _ \<Rightarrow> c \<noteq> CHR 0x0A \<and> c \<noteq> CHR 0x0D))"

text \<open>
  \<open>/^(\d{1,3}\.){3}\d{1,3}(:\d{1,5})?$/\<close>. Every group of digits is followed by a
  character that is no digit (or by the end), so a group is a whole run of digits:
  \<open>digit_run lo hi s\<close> reads the run at the head of \<open>s\<close> and gives the rest when the run
  has between \<open>lo\<close> and \<open>hi\<close> digits.
\<close>

definition digit_run :: "nat \<Rightarrow> nat \<Rightarrow> string \<Rightarrow> string option" where
  "digit_run lo hi s =
     (let n = length (takeWhile is_digit s)
      in if lo \<le> n \<and> n \<le> hi then Some (drop n s) else None)"

definition dotted_octet :: "string \<Rightarrow> string option" where
  "dotted_octet s =
     (case digit_run 1 3 s of
        Some (c # r) \<Rightarrow> if c = CHR ''.'' then Some r else None
      | _ \<Rightarrow> None)"

definition is_ip_endpoint :: "string \<Rightarrow> bool" where
  "is_ip_endpoint v =
     (case dotted_octet v of None \<Rightarrow> False | Some r1 \<Rightarrow>
     (case dotted_octet r1 of None \<Rightarrow> False | Some r2 \<Rightarrow>
     (case dotted_octet r2 of None \<Rightarrow> False | Some r3 \<Rightarrow>
     (case digit_run 1 3 r3 of
        None \<Rightarrow> False
      | Some [] \<Rightarrow> True
      | Some (c # p) \<Rightarrow> c = CHR '':'' \<and> digit_run 1 5 p = Some []))))"

text \<open>The \<open>validator\<close> function of the \<open>target\<close> path.\<close>

definition target_validator :: "string \<Rightarrow> bool" where
  "target_validator v = (is_https_url v \<or> is_ip_endpoint v)"

text \<open>
  Validation of a document against the schema: for each path the first validator that
  fails, \<open>required\<close> first (a required string must be non-empty), then the
  validators in the order the schema declares them.
\<close>

datatype vkind = Required | MinLength | MaxLength | Enum | Custom

type_synonym verr = "string \<times> vkind"

definition validate_domain :: "string \<Rightarrow> verr list" where
  "validate_domain v =
     (if v = [] then [(''domain'', Required)]
      else if length v < 3 then [(''domain'', MinLength)]
      else if 63 < length v then [(''domain'', MaxLength)]
      else [])"

definition validate_tld :: "string \<Rightarrow> verr list" where
  "validate_tld v =
     (if v = [] then [(''tld'', Required)]
      else if \<not> includes_str TLDS v then [(''tld'', Enum)]
      else [])"

definition validate_target :: "string \<Rightarrow> verr list" where
  "validate_target v =
     (if v = [] then [(''target'', Required)]
      else if \<not> target_validator v then [(''target'', Custom)]
      else [])"

definition validate_secretKeyHash :: "string \<Rightarrow> verr list" where
  "validate_secretKeyHash v = (if v = [] then [(''secretKeyHash'', Required)] else [])"

definition validate_maxlength :: "string \<Rightarrow> nat \<Rightarrow> string option \<Rightarrow> verr list" where
  "validate_maxlength path n v =
     (case v of None \<Rightarrow> [] | Some x \<Rightarrow> if n < length x then [(path, MaxLength)] else [])"

definition validate :: "site \<Rightarrow> verr list" where
  "validate s =
     validate_domain (domain s) @ validate_tld (tld s) @ validate_target (target s) @
     validate_secretKeyHash (secretKeyHash s) @
     validate_maxlength ''title'' 100 (title s) @
     validate_maxlength ''description'' 500 (description s)"

section \<open>The collection\<close>

text \<open>
  The collection is the list of its documents in insertion order. A document's \<open>_id\<close>
  is its identity and appears in no response: the model identifies a document by its
  position in the collection. The \<open>lowercase\<close> option of the \<open>domain\<close> path is a setter:
  it runs when a document is built and when a query filter is cast.
\<close>

type_synonym collection = "site list"

datatype store_error = ValidationError "verr list" | MongoServerError

fun first_index :: "('a \<Rightarrow> bool) \<Rightarrow> 'a list \<Rightarrow> (nat \<times> 'a) option" where
  "first_index P [] = None"
| "first_index P (x # xs) =
     (if P x then Some (0, x)
      else case first_index P xs of None \<Rightarrow> None | Some (i, y) \<Rightarrow> Some (Suc i, y))"

text \<open>\<open>Site.findOne({ domain, tld })\<close>: the first document that matches both paths.\<close>

definition findOne :: "string \<Rightarrow> string \<Rightarrow> collection \<Rightarrow> (nat \<times> site) option" where
  "findOne d t st = first_index (\<lambda>s. domain s = toLowerCase d \<and> tld s = t) st"

text \<open>
  \<open>new Site({ domain, tld, target, secretKeyHash, title, description })\<close> with the
  schema's setters and defaults.
\<close>

definition new_Site ::
  "nat \<Rightarrow> string \<Rightarrow> string \<Rightarrow> string \<Rightarrow> string \<Rightarrow> string option \<Rightarrow> string option \<Rightarrow> site" where
  "new_Site now d t g h ti de =
     \<lparr> domain = toLowerCase d, tld = t, target = g, secretKeyHash = h,
       title = ti, description = de, verified = False, createdAt = now,
       lastAccessed = now, keywords_path = [], bodyText = None, indexedAt = now \<rparr>"

text \<open>
  \<open>save()\<close> of a new document: validation, then the insert, which the unique index
  that the schema declares on \<open>domain\<close> (\<open>unique: true\<close>) refuses with a duplicate-key
  error when a document with the same \<open>domain\<close> is stored.
\<close>

definition save_new :: "site \<Rightarrow> collection \<Rightarrow> store_error + collection" where
  "save_new s st =
     (if validate s \<noteq> [] then Inl (ValidationError (validate s))
      else if list_ex (\<lambda>x. domain x = domain s) st then Inl MongoServerError
      else Inr (st @ [s]))"

text \<open>
  \<open>save()\<close> of a document read from the collection (at position \<open>i\<close>): validation, then
  the write. Mongoose validates the modified and the required paths; on a collection
  whose documents all passed validation when they were stored this is the validation of
  the whole document.
\<close>

definition save_at :: "nat \<Rightarrow> site \<Rightarrow> collection \<Rightarrow> store_error + collection" where
  "save_at i s st =
     (if validate s \<noteq> [] then Inl (ValidationError (validate s)) else Inr (st[i := s]))"

text \<open>\<open>Site.deleteOne({ _id: site._id })\<close>.\<close>

definition deleteOne :: "nat \<Rightarrow> collection \<Rightarrow> collection" where
  "deleteOne i st = take i st @ drop (Suc i) st"

section \<open>Responses\<close>

datatype json =
    JUndefined
  | JBool bool
  | JStr string
  | JDate nat
  | JObj "(string \<times> json) list"
  | JArr "json list"

record response =
  status :: nat
  body :: json

text \<open>An object literal as \<open>res.json\<close> sends it: undefined properties are left out.\<close>

definition object :: "(string \<times> json) list \<Rightarrow> json" where
  "object props = JObj (filter (\<lambda>kv. snd kv \<noteq> JUndefined) props)"

definition jopt :: "string option \<Rightarrow> json" where
  "jopt v = (case v of None \<Rightarrow> JUndefined | Some x \<Rightarrow> JStr x)"

definition res_json :: "nat \<Rightarrow> json \<Rightarrow> response" where
  "res_json code b = \<lparr> status = code, body = b \<rparr>"

definition error_response :: "nat \<Rightarrow> string \<Rightarrow> response" where
  "error_response code msg = res_json code (object [(''error'', JStr msg)])"

section \<open>What the routes take from outside\<close>

text \<open>
  The libraries and the database are parameters of the model: \<open>bcrypt.hash\<close> (with the
  salt it draws as an argument) and \<open>bcrypt.compare\<close>, the \<open>message\<close> Mongoose gives
  a validation error, and the documents a \<open>$text\<close> query matches, sorted by text score.
  The clock (\<open>new Date()\<close>, \<open>Date.now\<close>), the bytes of \<open>crypto.randomBytes(8)\<close> and
  the salt are arguments of the routes that use them. The database is taken to be
  reachable.
\<close>

record env =
  bcrypt_hash :: "string \<Rightarrow> string \<Rightarrow> string"
  bcrypt_compare :: "string \<Rightarrow> string \<Rightarrow> bool"
  validation_message :: "verr list \<Rightarrow> string"
  text_search :: "string \<Rightarrow> collection \<Rightarrow> site list"

text \<open>\<open>Buffer.toString('hex')\<close>: two lowercase hexadecimal digits for each byte.\<close>

definition hex_digit :: "nat \<Rightarrow> char" where
  "hex_digit n = ''0123456789abcdef'' ! (n mod 16)"

definition hex_byte :: "8 word \<Rightarrow> string" where
  "hex_byte b = [hex_digit (unat b div 16), hex_digit (unat b mod 16)]"

definition toString_hex :: "8 word list \<Rightarrow> string" where
  "toString_hex bs = concat (map hex_byte bs)"

text \<open>
  A field of a request body or of a query string is absent (\<open>None\<close>) or a string.
  \<open>!x\<close> holds of an absent field and of the empty string.
\<close>

definition truthy :: "string option \<Rightarrow> bool" where
  "truthy v = (case v of None \<Rightarrow> False | Some x \<Rightarrow> x \<noteq> [])"

definition str_of :: "string option \<Rightarrow> string" where
  "str_of v = (case v of None \<Rightarrow> [] | Some x \<Rightarrow> x)"

section \<open>The routes (backend/routes/sites.js)\<close>

text \<open>\<open>GET /check/:domain\<close>\<close>

definition check_route :: "string \<Rightarrow> string option \<Rightarrow> collection \<Rightarrow> response" where
  "check_route d tldq st =
     (if \<not> truthy tldq \<or> \<not> includes_str TLDS (str_of tldq)
      then error_response 400 ''Invalid TLD''
      else
        let available = (findOne d (str_of tldq) st = None)
        in res_json 200 (object
             [(''domain'', JStr d),
              (''tld'', jopt tldq),
              (''available'', JBool available),
              (''message'', JStr (if available then ''Domain is available''
                                  else ''Domain is already registered''))]))"

text \<open>\<open>POST /register\<close>\<close>

definition register_route ::
  "env \<Rightarrow> nat \<Rightarrow> 8 word list \<Rightarrow> string \<Rightarrow>
   string option \<Rightarrow> string option \<Rightarrow> string option \<Rightarrow> string option \<Rightarrow> string option \<Rightarrow>
   collection \<Rightarrow> collection \<times> response" where
  "register_route e now rnd salt d t g ti de st =
     (if \<not> truthy d \<or> \<not> truthy t \<or> \<not> truthy g
      then (st, error_response 400 ''Missing required fields'')
      else if \<not> includes_str TLDS (str_of t)
      then (st, error_response 400 ''Invalid TLD'')
      else if findOne (str_of d) (str_of t) st \<noteq> None
      then (st, error_response 409 ''Domain already registered'')
      else
        let secretKey = ''v12-'' @ toString_hex rnd;
            secretKeyHash = bcrypt_hash e salt secretKey;
            newSite = new_Site now (str_of d) (str_of t) (str_of g) secretKeyHash ti de
        in case save_new newSite st of
             Inl (ValidationError errs) \<Rightarrow> (st, error_response 400 (validation_message e errs))
           | Inl MongoServerError \<Rightarrow> (st, error_response 500 ''Server error'')
           | Inr st' \<Rightarrow>
               (st', res_json 201 (object
                  [(''success'', JBool True),
                   (''domain'', JStr (str_of d @ ''.'' @ str_of t)),
                   (''secretKey'', JStr secretKey),
                   (''message'',
                    JStr ''SAVE THIS KEY! If you lose it, you cannot update your site.'')])))"

text \<open>\<open>PUT /update\<close>: the assignments to the document that was found.\<close>

definition apply_update ::
  "nat \<Rightarrow> string option \<Rightarrow> string option \<Rightarrow> string option \<Rightarrow> site \<Rightarrow> site" where
  "apply_update now g ti de s =
     (let s1 = (if truthy g then s\<lparr>target := str_of g\<rparr> else s);
          s2 = (if ti \<noteq> None then s1\<lparr>title := ti\<rparr> else s1);
          s3 = (if de \<noteq> None then s2\<lparr>description := de\<rparr> else s2)
      in s3\<lparr>lastAccessed := now\<rparr>)"

definition update_route ::
  "env \<Rightarrow> nat \<Rightarrow>
   string option \<Rightarrow> string option \<Rightarrow> string option \<Rightarrow>
   string option \<Rightarrow> string option \<Rightarrow> string option \<Rightarrow>
   collection \<Rightarrow> collection \<times> response" where
  "update_route e now d t k g ti de st =
     (if \<not> truthy d \<or> \<not> truthy t \<or> \<not> truthy k
      then (st, error_response 400 ''Missing required fields'')
      else if \<not> includes_str TLDS (str_of t)
      then (st, error_response 400 ''Invalid TLD'')
      else case findOne (str_of d) (str_of t) st of
        None \<Rightarrow> (st, error_response 404 ''Domain not found'')
      | Some (i, found) \<Rightarrow>
          if \<not> bcrypt_compare e (str_of k) (secretKeyHash found)
          then (st, error_response 401 ''Invalid secret key'')
          else
            let s = apply_update now g ti de found
            in case save_at i s st of
                 Inl err \<Rightarrow> (st, error_response 500 ''Server error'')
               | Inr st' \<Rightarrow>
                   (st', res_json 200 (object
                      [(''success'', JBool True),
                       (''message'', JStr ''Domain updated successfully''),
                       (''site'', object
                          [(''domain'', JStr (domain s)),
                           (''tld'', JStr (tld s)),
                           (''target'', JStr (target s)),
                           (''title'', jopt (title s)),
                           (''description'', jopt (description s)),
                           (''lastAccessed'', JDate (lastAccessed s))])])))"

text \<open>\<open>DELETE /delete\<close>\<close>

definition delete_route ::
  "env \<Rightarrow> string option \<Rightarrow> string option \<Rightarrow> string option \<Rightarrow>
   collection \<Rightarrow> collection \<times> response" where
  "delete_route e d t k st =
     (if \<not> truthy d \<or> \<not> truthy t \<or> \<not> truthy k
      then (st, error_response 400 ''Missing required fields'')
      else if \<not> includes_str TLDS (str_of t)
      then (st, error_response 400 ''Invalid TLD'')
      else case findOne (str_of d) (str_of t) st of
        None \<Rightarrow> (st, error_response 404 ''Domain not found'')
      | Some (i, found) \<Rightarrow>
          if \<not> bcrypt_compare e (str_of k) (secretKeyHash found)
          then (st, error_response 401 ''Invalid secret key'')
          else (deleteOne i st, res_json 200 (object
                  [(''success'', JBool True),
                   (''message'', JStr ''Domain deleted successfully'')])))"

text \<open>\<open>GET /lookup/:domain/:tld\<close>: the rewrite of the target, then the route.\<close>

definition rawBase_of :: "string \<Rightarrow> string" where
  "rawBase_of tg =
     (if startsWith tg ''https://github.com/''
      then strip_trailing_slash
             (replace ''/blob/'' ''/'' (replace ''github.com'' ''raw.githubusercontent.com'' tg))
           @ ''/''
      else tg)"

definition lookup_route ::
  "nat \<Rightarrow> string \<Rightarrow> string \<Rightarrow> collection \<Rightarrow> collection \<times> response" where
  "lookup_route now d t st =
     (if \<not> includes_str TLDS t
      then (st, error_response 400 ''Invalid TLD'')
      else case findOne d t st of
        None \<Rightarrow> (st, error_response 404 ''Domain not found'')
      | Some (i, found) \<Rightarrow>
          let s = found\<lparr>lastAccessed := now\<rparr>
          in case save_at i s st of
               Inl err \<Rightarrow> (st, error_response 500 ''Server error'')
             | Inr st' \<Rightarrow>
                 (st', res_json 200 (object
                    [(''domain'', JStr (domain s)),
                     (''tld'', JStr (tld s)),
                     (''target'', JStr (target s)),
                     (''rawBase'', JStr (rawBase_of (target s))),
                     (''title'', jopt (title s)),
                     (''description'', jopt (description s)),
                     (''verified'', JBool (verified s)),
                     (''createdAt'', JDate (createdAt s)),
                     (''lastAccessed'', JDate (lastAccessed s))])))"

text \<open>\<open>GET /search\<close>\<close>

definition search_result :: "site \<Rightarrow> json" where
  "search_result s =
     object [(''domain'', JStr (domain s)),
             (''tld'', JStr (tld s)),
             (''title'', jopt (title s)),
             (''description'', jopt (description s))]"

definition search_route :: "env \<Rightarrow> string option \<Rightarrow> collection \<Rightarrow> response" where
  "search_route e q st =
     (if \<not> truthy q then error_response 400 ''Query parameter required''
      else res_json 200 (JArr (map search_result (take 20 (text_search e (str_of q) st)))))"

section \<open>Update and delete on the body as the parser hands it over\<close>

text \<open>
  \<open>express.json()\<close> hands the routes whatever JSON the client sent, and with some
  versions of Express no body at all (\<open>req.body\<close> is undefined) when none was parsed.
  The three fields that update and delete require are therefore any JSON value or absent;
  numbers are taken as integers, since the routes read of a number only whether it is zero.
  The optional fields of update are read after the four tests on the required ones and
  stay typed as in \<open>update_route\<close>.
\<close>

datatype jsvalue =
    JsNull
  | JsBool bool
  | JsNumber int
  | JsString string
  | JsArray "jsvalue list"
  | JsObject "(string \<times> jsvalue) list"

record delete_body =
  req_domain :: "jsvalue option"
  req_tld :: "jsvalue option"
  req_secretKey :: "jsvalue option"

record update_body = delete_body +
  req_target :: "string option"
  req_title :: "string option"
  req_description :: "string option"

text \<open>\<open>!x\<close> fails of a value that is truthy.\<close>

definition js_truthy :: "jsvalue option \<Rightarrow> bool" where
  "js_truthy v =
     (case v of
        None \<Rightarrow> False
      | Some JsNull \<Rightarrow> False
      | Some (JsBool b) \<Rightarrow> b
      | Some (JsNumber n) \<Rightarrow> n \<noteq> 0
      | Some (JsString s) \<Rightarrow> s \<noteq> []
      | Some (JsArray xs) \<Rightarrow> True
      | Some (JsObject ps) \<Rightarrow> True)"

text \<open>\<open>includes\<close> compares with the strings of the array: only a string can be among them.\<close>

definition js_includes :: "string list \<Rightarrow> jsvalue option \<Rightarrow> bool" where
  "js_includes xs v = (case v of Some (JsString s) \<Rightarrow> includes_str xs s | _ \<Rightarrow> False)"

definition js_str :: "jsvalue option \<Rightarrow> string" where
  "js_str v = (case v of Some (JsString s) \<Rightarrow> s | _ \<Rightarrow> [])"

text \<open>
  \<open>Site.findOne({ domain, tld })\<close> casts the filter. A string goes through the
  \<open>lowercase\<close> setter. What Mongoose makes of any other value is a parameter: a
  condition on the stored \<open>domain\<close> (a number cast to a string, an array taken as
  \<open>$in\<close>, an object of query operators), or \<open>None\<close> when the cast throws. By the time
  of the query \<open>tld\<close> is one of the four strings.
\<close>

type_synonym filter_cast = "jsvalue option \<Rightarrow> (string \<Rightarrow> bool) option"

definition domain_filter :: "filter_cast \<Rightarrow> jsvalue option \<Rightarrow> (string \<Rightarrow> bool) option" where
  "domain_filter c v =
     (case v of Some (JsString s) \<Rightarrow> Some (\<lambda>x. x = toLowerCase s) | _ \<Rightarrow> c v)"

definition findOne_cast ::
  "filter_cast \<Rightarrow> jsvalue option \<Rightarrow> string \<Rightarrow> collection \<Rightarrow> (nat \<times> site) option option" where
  "findOne_cast c v t st =
     (case domain_filter c v of
        None \<Rightarrow> None
      | Some P \<Rightarrow> Some (first_index (\<lambda>s. P (domain s) \<and> tld s = t) st))"

text \<open>
  \<open>bcrypt.compare(secretKey, site.secretKeyHash)\<close>: a verdict when the data is a string;
  for any other data the promise is rejected (\<open>None\<close>).
\<close>

definition compare_secret :: "env \<Rightarrow> jsvalue option \<Rightarrow> string \<Rightarrow> bool option" where
  "compare_secret e v h =
     (case v of Some (JsString k) \<Rightarrow> Some (bcrypt_compare e k h) | _ \<Rightarrow> None)"

text \<open>
  \<open>PUT /update\<close>. Whatever is thrown inside the \<open>try\<close> block (the destructuring of an
  undefined body, the cast of the filter, the rejection of \<open>bcrypt.compare\<close>, the
  validation in \<open>save()\<close>) reaches the \<open>catch\<close>, which answers 500.
\<close>

definition update_request ::
  "env \<Rightarrow> filter_cast \<Rightarrow> nat \<Rightarrow> update_body option \<Rightarrow> collection \<Rightarrow> collection \<times> response" where
  "update_request e c now reqbody st =
     (case reqbody of
        None \<Rightarrow> (st, error_response 500 ''Server error'')
      | Some b \<Rightarrow>
          if \<not> js_truthy (req_domain b) \<or> \<not> js_truthy (req_tld b) \<or> \<not> js_truthy (req_secretKey b)
          then (st, error_response 400 ''Missing required fields'')
          else if \<not> js_includes TLDS (req_tld b)
          then (st, error_response 400 ''Invalid TLD'')
          else case findOne_cast c (req_domain b) (js_str (req_tld b)) st of
            None \<Rightarrow> (st, error_response 500 ''Server error'')
          | Some None \<Rightarrow> (st, error_response 404 ''Domain not found'')
          | Some (Some (i, found)) \<Rightarrow>
              (case compare_secret e (req_secretKey b) (secretKeyHash found) of
                 None \<Rightarrow> (st, error_response 500 ''Server error'')
               | Some isValidKey \<Rightarrow>
                   if \<not> isValidKey
                   then (st, error_response 401 ''Invalid secret key'')
                   else
                     let s = apply_update now (req_target b) (req_title b) (req_description b) found
                     in case save_at i s st of
                          Inl err \<Rightarrow> (st, error_response 500 ''Server error'')
                        | Inr st' \<Rightarrow>
                            (st', res_json 200 (object
                               [(''success'', JBool True),
                                (''message'', JStr ''Domain updated successfully''),
                                (''site'', object
                                   [(''domain'', JStr (domain s)),
                                    (''tld'', JStr (tld s)),
                                    (''target'', JStr (target s)),
                                    (''title'', jopt (title s)),
                                    (''description'', jopt (description s)),
                                    (''lastAccessed'', JDate (lastAccessed s))])]))))"

text \<open>\<open>DELETE /delete\<close>\<close>

definition delete_request ::
  "env \<Rightarrow> filter_cast \<Rightarrow> delete_body option \<Rightarrow> collection \<Rightarrow> collection \<times> response" where
  "delete_request e c reqbody st =
     (case reqbody of
        None \<Rightarrow> (st, error_response 500 ''Server error'')
      | Some b \<Rightarrow>
          if \<not> js_truthy (req_domain b) \<or> \<not> js_truthy (req_tld b) \<or> \<not> js_truthy (req_secretKey b)
          then (st, error_response 400 ''Missing required fields'')
          else if \<not> js_includes TLDS (req_tld b)
          then (st, error_response 400 ''Invalid TLD'')
          else case findOne_cast c (req_domain b) (js_str (req_tld b)) st of
            None \<Rightarrow> (st, error_response 500 ''Server error'')
          | Some None \<Rightarrow> (st, error_response 404 ''Domain not found'')
          | Some (Some (i, found)) \<Rightarrow>
              (case compare_secret e (req_secretKey b) (secretKeyHash found) of
                 None \<Rightarrow> (st, error_response 500 ''Server error'')
               | Some isValidKey \<Rightarrow>
                   if \<not> isValidKey
                   then (st, error_response 401 ''Invalid secret key'')
                   else (deleteOne i st, res_json 200 (object
                           [(''success'', JBool True),
                            (''message'', JStr ''Domain deleted successfully'')]))))"

section \<open>The protocol handler (main process)\<close>

text \<open>
  What the handler takes from Electron and Node: \<open>net.fetch\<close>, \<open>fs.existsSync\<close> and
  \<open>path.join(__dirname, ...)\<close>. A call of \<open>net.fetch\<close> throws at once, or gives a
  promise that is rejected, or one that is fulfilled with a response. Of a response the
  handler reads \<open>ok\<close> and, through \<open>json()\<close>, the \<open>target\<close> of the body.
\<close>

datatype json_outcome = JsonRejects | JsonTarget string

record fetched =
  ok :: bool
  json_body :: json_outcome
  content :: string

datatype fetch_outcome = Throws | Rejects | Fulfils fetched

record platform =
  net_fetch :: "string \<Rightarrow> fetch_outcome"
  existsSync :: "string \<Rightarrow> bool"
  path_join :: "string list \<Rightarrow> string"

text \<open>
  What the handler answers: a response (a fetched one passed on as it is, an HTML
  document, or a text with a status), or a rejected promise, the failure left to the caller.
\<close>

datatype reply = Content fetched | Html string | Plain nat string

datatype handled = Returned reply | Rejected

text \<open>
  \<open>return net.fetch(u)\<close> in an \<open>async\<close> function returns the promise without awaiting
  it. Inside a \<open>try\<close> block the \<open>catch\<close> sees what the call throws at once, and the
  argument \<open>on_throw\<close> is what it returns then; a rejection of the returned promise comes
  after the block is left and rejects the promise of the handler.
\<close>

definition return_fetch :: "platform \<Rightarrow> handled \<Rightarrow> string \<Rightarrow> handled" where
  "return_fetch p on_throw u =
     (case net_fetch p u of
        Throws \<Rightarrow> on_throw
      | Rejects \<Rightarrow> Rejected
      | Fulfils r \<Rightarrow> Returned (Content r))"

text \<open>\<open>String.prototype.split\<close> on a one-character separator.\<close>

fun split :: "char \<Rightarrow> string \<Rightarrow> string list" where
  "split sep [] = [[]]"
| "split sep (c # cs) =
     (if c = sep then [] # split sep cs
      else case split sep cs of [] \<Rightarrow> [[c]] | x # xs \<Rightarrow> (c # x) # xs)"

definition nl :: string where
  "nl = [CHR 0x0A]"

definition failed_html :: "string \<Rightarrow> string" where
  "failed_html hostname =
     nl @ ''                <!DOCTYPE html>''
   @ nl @ ''                <html>''
   @ nl @ ''                <head><title>V12 Browser</title></head>''
   @ nl @ ''                <body style='' @ [CHR 0x22]
        @ ''font-family: sans-serif; padding: 50px; text-align: center; background: #1f2937; color: white;''
        @ [CHR 0x22] @ ''>''
   @ nl @ ''                  <h1>Welcome to V12 Browser</h1>''
   @ nl @ ''                  <p>Failed to load content for <strong>'' @ hostname @ ''</strong>.</p>''
   @ nl @ ''                  <p><a href='' @ [CHR 0x22] @ ''virt://register.at'' @ [CHR 0x22]
        @ '' style='' @ [CHR 0x22] @ ''color: #3b82f6;'' @ [CHR 0x22]
        @ ''>Register this domain now!</a></p>''
   @ nl @ ''                </body>''
   @ nl @ ''                </html>''
   @ nl @ ''              ''"

definition unregistered_html :: "string \<Rightarrow> string" where
  "unregistered_html hostname =
     nl @ ''        <!DOCTYPE html>''
   @ nl @ ''        <html>''
   @ nl @ ''        <head><title>V12 Browser</title></head>''
   @ nl @ ''        <body style='' @ [CHR 0x22]
        @ ''font-family: sans-serif; padding: 50px; text-align: center; background: #1f2937; color: white;''
        @ [CHR 0x22] @ ''>''
   @ nl @ ''          <h1>Welcome to V12 Browser</h1>''
   @ nl @ ''          <p>The domain <strong>'' @ hostname @ ''</strong> is not yet registered.</p>''
   @ nl @ ''          <p><a href='' @ [CHR 0x22] @ ''virt://register.at'' @ [CHR 0x22]
        @ '' style='' @ [CHR 0x22] @ ''color: #3b82f6;'' @ [CHR 0x22]
        @ ''>Register this domain now!</a></p>''
   @ nl @ ''        </body>''
   @ nl @ ''        </html>''
   @ nl @ ''      ''"

definition lookup_url :: "string \<Rightarrow> string \<Rightarrow> string" where
  "lookup_url d t =
     ''https://virt-protocol-production.up.railway.app/api/lookup/'' @ d @ ''/'' @ t"

definition file_url :: "string \<Rightarrow> string" where
  "file_url path = ''file://'' @ path"

definition is_index :: "string \<Rightarrow> bool" where
  "is_index pathname = (pathname = ''/'' \<or> pathname = ''/index.html'' \<or> pathname = [])"

definition error_loading :: handled where
  "error_loading = Returned (Plain 500 ''Error loading content'')"

text \<open>The system sites \<open>lookin.at\<close> and \<open>v12browser.vc\<close>: a page or an asset.\<close>

definition serve_asset :: "platform \<Rightarrow> string \<Rightarrow> string \<Rightarrow> handled" where
  "serve_asset p page pathname =
     (let relativePath = (if is_index pathname then page else drop 1 pathname);
          filePath = path_join p [''src/assets'', relativePath]
      in if existsSync p filePath then return_fetch p error_loading (file_url filePath)
         else Returned (Plain 404 ''Not Found''))"

text \<open>
  The lookup of a name that is no system site. The first \<open>net.fetch\<close> and \<open>json()\<close>
  are awaited inside a \<open>try\<close> block whose \<open>catch\<close> only logs, so a failure there goes on
  to the page for unregistered names; the fetch of the target is returned, not awaited.
\<close>

definition resolve :: "platform \<Rightarrow> string \<Rightarrow> handled" where
  "resolve p hostname =
     (let parts = split CHR ''.'' hostname;
          d = (case parts of x # _ \<Rightarrow> x | _ \<Rightarrow> []);
          t = (case parts of _ # y # _ \<Rightarrow> y | _ \<Rightarrow> []);
          unregistered = Returned (Html (unregistered_html hostname))
      in if d \<noteq> [] \<and> t \<noteq> [] then
           (case net_fetch p (lookup_url d t) of
              Fulfils dnsResponse \<Rightarrow>
                if ok dnsResponse then
                  (case json_body dnsResponse of
                     JsonTarget tg \<Rightarrow>
                       return_fetch p (Returned (Html (failed_html hostname))) tg
                   | JsonRejects \<Rightarrow> unregistered)
                else unregistered
            | _ \<Rightarrow> unregistered)
         else unregistered)"

text \<open>
  \<open>protocol.handle('virt', ...)\<close> on the host name and the path of the requested URL.
  The favicon branch stands before the outer \<open>try\<close>.
\<close>

definition virt_handler :: "platform \<Rightarrow> string \<Rightarrow> string \<Rightarrow> handled" where
  "virt_handler p hostname pathname =
     (if pathname = ''/favicon.ico'' \<and> existsSync p (path_join p [''src/assets/favicon.ico''])
      then return_fetch p Rejected (file_url (path_join p [''src/assets/favicon.ico'']))
      else if hostname = ''register.at'' then
        (if is_index pathname
         then return_fetch p error_loading (file_url (path_join p [''src/assets/registration.html'']))
         else
           let assetPath = path_join p [''src/assets'', drop 1 pathname]
           in if existsSync p assetPath then return_fetch p error_loading (file_url assetPath)
              else Returned (Plain 404 ''Asset not found''))
      else if hostname = ''lookin.at'' then serve_asset p ''search.html'' pathname
      else if hostname = ''v12browser.vc'' then serve_asset p ''sales.html'' pathname
      else resolve p hostname)"

section \<open>Reading a response\<close>

text \<open>The value of a property of an object, and the property names at every depth.\<close>

fun get_prop :: "string \<Rightarrow> json \<Rightarrow> json" where
  "get_prop k (JObj ps) = (case map_of ps k of None \<Rightarrow> JUndefined | Some v \<Rightarrow> v)"
| "get_prop k _ = JUndefined"

primrec prop_names :: "json \<Rightarrow> string list" where
  "prop_names JUndefined = []"
| "prop_names (JBool b) = []"
| "prop_names (JStr x) = []"
| "prop_names (JDate n) = []"
| "prop_names (JObj ps) = concat (map (\<lambda>kv. fst kv # snd kv) (map (map_prod id prop_names) ps))"
| "prop_names (JArr xs) = concat (map prop_names xs)"

text \<open>
  A body is free of secrets when no property at any depth is called \<open>secretKey\<close> or
  \<open>secretKeyHash\<close>. To say that a response does not depend on the stored digests,
  \<open>rehash f\<close> replaces the digest of every document.
\<close>

definition secret_free :: "json \<Rightarrow> bool" where
  "secret_free j =
     (''secretKey'' \<notin> set (prop_names j) \<and> ''secretKeyHash'' \<notin> set (prop_names j))"

definition rehash :: "(string \<Rightarrow> string) \<Rightarrow> collection \<Rightarrow> collection" where
  "rehash f st = map (\<lambda>s. s\<lparr>secretKeyHash := f (secretKeyHash s)\<rparr>) st"

section \<open>An example deployment\<close>

text \<open>
  Concrete parameters on which the routes can be run: a hash that prepends a salt of two
  characters, a comparison that strips it, and a text search that matches titles.
\<close>

definition example_env :: env where
  "example_env =
     \<lparr> bcrypt_hash = (\<lambda>salt k. salt @ k),
       bcrypt_compare = (\<lambda>k h. drop 2 h = k),
       validation_message = (\<lambda>errs. ''Site validation failed''),
       text_search = (\<lambda>q st. filter (\<lambda>s. title s = Some q) st) \<rparr>"

definition example_rnd :: "8 word list" where
  "example_rnd = [1, 2, 3, 4, 5, 6, 7, 0xAB]"

definition example_site :: site where
  "example_site =
     new_Site 3 ''abc'' ''vc'' ''https://example.org/'' ''$$v12-01020304050607ab''
       (Some ''Example'') None"

text \<open>
  A platform on which the registry answers every lookup with one target and the host of
  that target is unreachable: the promise of the second fetch is rejected.
\<close>

definition example_platform :: platform where
  "example_platform =
     \<lparr> net_fetch = (\<lambda>u. if startsWith u ''https://virt-protocol-production.up.railway.app/''
                         then Fulfils \<lparr> ok = True,
                                        json_body = JsonTarget ''https://down.example/'',
                                        content = [] \<rparr>
                         else Rejects),
       existsSync = (\<lambda>path. False),
       path_join = (\<lambda>parts. concat (map (\<lambda>x. ''/'' @ x) (''app'' # parts))) \<rparr>"

text \<open>
  A cast of filter values that takes an array of strings as \<open>$in\<close> and throws on every
  other value that is no string.
\<close>

definition example_cast :: filter_cast where
  "example_cast v =
     (case v of Some (JsArray xs) \<Rightarrow> Some (\<lambda>x. JsString x \<in> set xs) | _ \<Rightarrow> None)"

section \<open>Facts about strings\<close>

lemma startsWith_prefix: "startsWith s p = prefix p s"
proof
  assume "startsWith s p"
  then have "s = p @ drop (length p) s"
    by (metis startsWith_def append_take_drop_id)
  then show "prefix p s" by (metis prefixI)
next
  assume "prefix p s"
  then show "startsWith s p" by (auto simp: startsWith_def prefix_def)
qed

lemma endsWith_suffix: "endsWith s p = suffix p s"
proof
  assume "endsWith s p"
  then have "s = take (length s - length p) s @ p"
    by (metis endsWith_def append_take_drop_id)
  then show "suffix p s" by (metis suffixI)
next
  assume "suffix p s"
  then show "endsWith s p" by (auto simp: endsWith_def suffix_def)
qed

section \<open>The navigation validator: what it accepts\<close>

text \<open>
  C4. The name validator accepts a string exactly when it begins with the scheme prefix
  \<open>virt://\<close> and is one of the three system names or ends with one of the four tag
  suffixes. The empty string, the scheme alone, a name with an unknown tag and every
  \<open>https://\<close> URL are rejected; \<open>virt://lookin.at\<close> and \<open>virt://abc.vc\<close> are accepted.
\<close>

theorem isValidVirtUrl_accepts:
  "(isValidVirtUrl url \<longleftrightarrow>
      prefix ''virt://'' url \<and>
      (url = ''virt://register.at'' \<or> url = ''virt://lookin.at'' \<or> url = ''virt://v12browser.vc''
       \<or> suffix ''.vc'' url \<or> suffix ''.vmc'' url \<or> suffix ''.at'' url \<or> suffix ''.lit'' url))
   \<and> \<not> isValidVirtUrl []
   \<and> \<not> isValidVirtUrl ''virt://''
   \<and> \<not> isValidVirtUrl ''virt://abc.com''
   \<and> \<not> isValidVirtUrl (''https://'' @ rest)
   \<and> isValidVirtUrl ''virt://lookin.at''
   \<and> isValidVirtUrl ''virt://abc.vc''"
proof -
  have iff: "isValidVirtUrl url \<longleftrightarrow>
      prefix ''virt://'' url \<and>
      (url = ''virt://register.at'' \<or> url = ''virt://lookin.at'' \<or> url = ''virt://v12browser.vc''
       \<or> suffix ''.vc'' url \<or> suffix ''.vmc'' url \<or> suffix ''.at'' url \<or> suffix ''.lit'' url)"
    by (simp add: isValidVirtUrl_def isSystemPage_def hasValidTld_def validTlds_def
        startsWith_prefix endsWith_suffix)
  have rejected: "\<not> isValidVirtUrl []" "\<not> isValidVirtUrl ''virt://''"
    "\<not> isValidVirtUrl ''virt://abc.com''"
    by (simp_all add: isValidVirtUrl_def isSystemPage_def hasValidTld_def validTlds_def
        startsWith_def endsWith_def)
  have https: "\<not> isValidVirtUrl (''https://'' @ rest)"
    by (simp add: isValidVirtUrl_def startsWith_def)
  have accepted: "isValidVirtUrl ''virt://lookin.at''" "isValidVirtUrl ''virt://abc.vc''"
    by (simp_all add: isValidVirtUrl_def isSystemPage_def hasValidTld_def validTlds_def
        startsWith_def endsWith_def)
  from iff rejected https accepted show ?thesis by blast
qed

section \<open>The rewrite of a source-host target\<close>

lemma replace_host:
  "replace ''github.com'' ''raw.githubusercontent.com'' (''https://github.com/'' @ r)
     = ''https://raw.githubusercontent.com/'' @ r"
  by (simp add: startsWith_def)

lemma replace_blob_keeps_host:
  "\<exists>w. replace ''/blob/'' ''/'' (''https://raw.githubusercontent.com/'' @ r)
     = ''https://raw.githubusercontent.com/'' @ w"
proof (cases "startsWith (''/'' @ r) ''/blob/''")
  case True
  then show ?thesis by (simp add: startsWith_def)
next
  case False
  then show ?thesis by (simp add: startsWith_def)
qed

lemma strip_trailing_slash_keeps:
  "p \<noteq> [] \<Longrightarrow> last p \<noteq> CHR ''/'' \<Longrightarrow> \<exists>w'. strip_trailing_slash (p @ w) = p @ w'"
  by (cases "w = []") (auto simp: strip_trailing_slash_def butlast_append)

lemma rawBase_of_github_form:
  "rawBase_of (''https://github.com/'' @ r) =
     strip_trailing_slash (replace ''/blob/'' ''/'' (''https://raw.githubusercontent.com/'' @ r))
     @ ''/''"
proof -
  have "startsWith (''https://github.com/'' @ r) ''https://github.com/''"
    by (simp add: startsWith_def)
  then have "rawBase_of (''https://github.com/'' @ r) =
      strip_trailing_slash (replace ''/blob/'' ''/''
        (replace ''github.com'' ''raw.githubusercontent.com'' (''https://github.com/'' @ r))) @ ''/''"
    by (simp only: rawBase_of_def if_True)
  then show ?thesis by (simp only: replace_host)
qed

lemma rawBase_of_github:
  "\<exists>w. rawBase_of (''https://github.com/'' @ r) = ''https://raw.githubusercontent.com'' @ w @ ''/''"
proof -
  obtain w where w: "replace ''/blob/'' ''/'' (''https://raw.githubusercontent.com/'' @ r)
     = ''https://raw.githubusercontent.com'' @ (''/'' @ w)"
    using replace_blob_keeps_host[of r] by auto
  obtain w' where w': "strip_trailing_slash (''https://raw.githubusercontent.com'' @ (''/'' @ w))
     = ''https://raw.githubusercontent.com'' @ w'"
    using strip_trailing_slash_keeps[of "''https://raw.githubusercontent.com''" "''/'' @ w"] by auto
  have "rawBase_of (''https://github.com/'' @ r) = ''https://raw.githubusercontent.com'' @ w' @ ''/''"
    by (simp only: rawBase_of_github_form w w' append_assoc)
  then show ?thesis by blast
qed

lemma rawBase_of_github_shape:
  "prefix ''https://raw.githubusercontent.com/'' (rawBase_of (''https://github.com/'' @ r))
   \<and> suffix ''/'' (rawBase_of (''https://github.com/'' @ r))"
proof -
  obtain w where w: "replace ''/blob/'' ''/'' (''https://raw.githubusercontent.com/'' @ r)
     = ''https://raw.githubusercontent.com/'' @ w"
    using replace_blob_keeps_host[of r] by auto
  have form: "rawBase_of (''https://github.com/'' @ r) =
     strip_trailing_slash (''https://raw.githubusercontent.com/'' @ w) @ ''/''"
    by (simp only: rawBase_of_github_form w)
  have "prefix ''https://raw.githubusercontent.com/''
          (strip_trailing_slash (''https://raw.githubusercontent.com/'' @ w) @ ''/'')"
  proof (cases "w = []")
    case True
    then show ?thesis by (simp add: strip_trailing_slash_def)
  next
    case False
    then show ?thesis
      by (simp add: strip_trailing_slash_def butlast_append)
  qed
  with form show ?thesis by (simp add: suffix_def)
qed

lemma rawBase_of_not_github:
  assumes "startsWith tg ''https://github.com/''"
  shows "\<not> startsWith (rawBase_of tg) ''https://github.com/''"
proof -
  from assms obtain r where "tg = ''https://github.com/'' @ r"
    unfolding startsWith_prefix prefix_def by blast
  then obtain w where "rawBase_of tg = ''https://raw.githubusercontent.com'' @ w @ ''/''"
    using rawBase_of_github[of r] by auto
  then show ?thesis by (simp add: startsWith_def)
qed

text \<open>
  C9. The rewrite of the lookup route is idempotent: a target that does not start with
  \<open>https://github.com/\<close> is returned unchanged, the rewritten form of one that does
  never starts with that prefix, and so rewriting twice is rewriting once.
\<close>

theorem rawBase_of_idempotent:
  "rawBase_of (rawBase_of tg) = rawBase_of tg
   \<and> (\<not> startsWith tg ''https://github.com/'' \<longrightarrow> rawBase_of tg = tg)
   \<and> \<not> startsWith (rawBase_of tg) ''https://github.com/'' "
proof (cases "startsWith tg ''https://github.com/''")
  case True
  then have "\<not> startsWith (rawBase_of tg) ''https://github.com/''"
    by (rule rawBase_of_not_github)
  with True show ?thesis by (simp add: rawBase_of_def[of "rawBase_of tg"])
next
  case False
  then show ?thesis by (simp add: rawBase_of_def)
qed

theorem rawBase_of_idempotent_witness:
  "\<not> startsWith ''https://example.org/site'' ''https://github.com/''
   \<and> rawBase_of ''https://example.org/site'' = ''https://example.org/site''
   \<and> rawBase_of ''https://github.com/u/r/blob/main/'' = ''https://raw.githubusercontent.com/u/r/main/''
   \<and> rawBase_of (rawBase_of ''https://github.com/u/r/blob/main/'')
       = ''https://raw.githubusercontent.com/u/r/main/''"
proof -
  have h: "\<not> startsWith ''https://example.org/site'' ''https://github.com/''"
    by (simp add: startsWith_def)
  have v: "rawBase_of ''https://github.com/u/r/blob/main/''
      = ''https://raw.githubusercontent.com/u/r/main/''"
    by (simp add: rawBase_of_def startsWith_def strip_trailing_slash_def)
  from h v rawBase_of_idempotent [of "''https://example.org/site''"]
    rawBase_of_idempotent [of "''https://github.com/u/r/blob/main/''"]
  show ?thesis by simp
qed

section \<open>Facts about responses\<close>

lemma status_error_response [simp]: "status (error_response c m) = c"
  by (simp add: error_response_def res_json_def)

lemma status_res_json [simp]: "status (res_json c b) = c"
  by (simp add: res_json_def)

lemma body_res_json [simp]: "body (res_json c b) = b"
  by (simp add: res_json_def)

lemma error_responses_distinct:
  "error_response c m = error_response c' m' \<longleftrightarrow> c = c' \<and> m = m'"
  by (auto simp: error_response_def res_json_def object_def)

lemma get_prop_object_target:
  "get_prop ''target'' (object ((''domain'', a) # (''tld'', b) # (''target'', JStr x) # rest)) = JStr x"
  by (simp add: object_def)

lemma get_prop_object_rawBase:
  "get_prop ''rawBase'' (object ((''domain'', a) # (''tld'', b) # (''target'', c) # (''rawBase'', JStr x) # rest)) = JStr x"
  by (simp add: object_def)

lemma prop_names_JObj:
  "prop_names (JObj ps) = concat (map (\<lambda>kv. fst kv # prop_names (snd kv)) ps)"
  by (simp add: comp_def)

lemma prop_names_object:
  "set (prop_names (object ps)) \<subseteq> set (prop_names (JObj ps))"
  unfolding object_def prop_names_JObj by auto

lemma prop_names_jopt [simp]: "prop_names (jopt v) = []"
  by (cases v) (simp_all add: jopt_def)

lemma secret_free_error [simp]: "secret_free (body (error_response c m))"
  by (simp add: secret_free_def error_response_def res_json_def object_def)

lemma secret_free_objectI:
  "secret_free (JObj ps) \<Longrightarrow> secret_free (object ps)"
  using prop_names_object[of ps] unfolding secret_free_def by blast

section \<open>Facts about the collection\<close>

lemma first_index_Some:
  "first_index P xs = Some (i, x) \<Longrightarrow> i < length xs \<and> xs ! i = x \<and> P x"
proof (induction xs arbitrary: i)
  case Nil
  then show ?case by simp
next
  case (Cons a xs)
  then show ?case
    by (auto split: if_splits option.splits)
qed

lemma first_index_None: "first_index P xs = None \<longleftrightarrow> (\<forall>x\<in>set xs. \<not> P x)"
  by (induction xs) (auto split: option.splits)

lemma first_index_append_new:
  "first_index P xs = None \<Longrightarrow> P y \<Longrightarrow> first_index P (xs @ [y]) = Some (length xs, y)"
  by (induction xs) (auto split: option.splits if_splits)

lemma first_index_map:
  assumes "\<And>x. P (g x) = P x"
  shows "first_index P (map g xs) = map_option (\<lambda>(i, x). (i, g x)) (first_index P xs)"
  using assms by (induction xs) (auto split: option.splits)

lemma findOne_new_Site:
  assumes "findOne d t st = None"
  shows "findOne d t (st @ [new_Site now d t g h ti de]) = Some (length st, new_Site now d t g h ti de)"
  using assms unfolding findOne_def
  by (intro first_index_append_new) (simp_all add: new_Site_def)

lemma findOne_rehash:
  "findOne d t (rehash f st)
     = map_option (\<lambda>(i, s). (i, s\<lparr>secretKeyHash := f (secretKeyHash s)\<rparr>)) (findOne d t st)"
  unfolding findOne_def rehash_def by (rule first_index_map) simp

lemma validate_lastAccessed [simp]: "validate (s\<lparr>lastAccessed := n\<rparr>) = validate s"
  by (simp add: validate_def)

lemma validate_rehash:
  assumes "\<forall>h. (f h = []) = (h = [])"
  shows "validate (s\<lparr>secretKeyHash := f (secretKeyHash s)\<rparr>) = validate s"
  using assms by (simp add: validate_def validate_secretKeyHash_def)

lemma validate_invalid_target:
  assumes "v \<noteq> []" and "\<not> target_validator v" and "target s = v"
  shows "(''target'', Custom) \<in> set (validate s)"
  using assms by (simp add: validate_def validate_target_def)

lemma example_findOne: "findOne ''abc'' ''vc'' [example_site] = Some (0, example_site)"
  by code_simp

section \<open>Registration\<close>

lemma length_toString_hex: "length (toString_hex bs) = 2 * length bs"
  by (induction bs) (simp_all add: toString_hex_def hex_byte_def)

lemma hex_digit_in: "hex_digit n \<in> set ''0123456789abcdef''"
proof -
  have "n mod 16 < length ''0123456789abcdef''" by simp
  then show ?thesis unfolding hex_digit_def by (rule nth_mem)
qed

lemma toString_hex_digits: "set (toString_hex bs) \<subseteq> set ''0123456789abcdef''"
  using hex_digit_in by (auto simp: toString_hex_def hex_byte_def)

lemma register_route_201:
  assumes "register_route e now rnd salt d t g ti de st = (st', r)" and "status r = 201"
  defines "key \<equiv> ''v12-'' @ toString_hex rnd"
  defines "newSite \<equiv> new_Site now (str_of d) (str_of t) (str_of g) (bcrypt_hash e salt key) ti de"
  shows "truthy d \<and> truthy t \<and> truthy g \<and> includes_str TLDS (str_of t)
     \<and> findOne (str_of d) (str_of t) st = None
     \<and> validate newSite = []
     \<and> st' = st @ [newSite]
     \<and> r = res_json 201 (object
                  [(''success'', JBool True),
                   (''domain'', JStr (str_of d @ ''.'' @ str_of t)),
                   (''secretKey'', JStr key),
                   (''message'',
                    JStr ''SAVE THIS KEY! If you lose it, you cannot update your site.'')])"
  using assms(1,2) unfolding key_def newSite_def register_route_def save_new_def Let_def
  by (auto split: if_splits sum.splits store_error.splits simp del: not_None_eq)

lemma register_route_not_201:
  assumes "register_route e now rnd salt d t g ti de st = (st', r)" and "status r \<noteq> 201"
  shows "st' = st \<and> secret_free (body r)"
  using assms unfolding register_route_def Let_def
  by (auto split: if_splits sum.splits store_error.splits)

lemma register_route_same_hash:
  assumes "bcrypt_hash e salt' (''v12-'' @ toString_hex rnd') = bcrypt_hash e salt (''v12-'' @ toString_hex rnd)"
  shows "fst (register_route e now rnd' salt' d t g ti de st) = fst (register_route e now rnd salt d t g ti de st)"
  using assms unfolding register_route_def Let_def
  by (simp split: sum.splits store_error.splits)

lemma register_route_conflict_iff:
  assumes "truthy d" and "truthy t" and "truthy g" and "includes_str TLDS (str_of t)"
  shows "status (snd (register_route e now rnd salt d t g ti de st)) = 409
     \<longleftrightarrow> findOne (str_of d) (str_of t) st \<noteq> None"
  using assms unfolding register_route_def save_new_def Let_def
  by (simp split: sum.splits store_error.splits del: not_None_eq)

lemma register_route_duplicate_domain:
  assumes "truthy d" and "truthy t" and "truthy g" and "includes_str TLDS (str_of t)"
    and "findOne (str_of d) (str_of t) st = None"
    and "validate (new_Site now (str_of d) (str_of t) (str_of g)
           (bcrypt_hash e salt (''v12-'' @ toString_hex rnd)) ti de) = []"
    and "x \<in> set st" and "domain x = toLowerCase (str_of d)"
  shows "register_route e now rnd salt d t g ti de st = (st, error_response 500 ''Server error'')"
proof -
  have "list_ex (\<lambda>y. domain y = toLowerCase (str_of d)) st"
    using assms(7,8) by (auto simp: list_ex_iff)
  then show ?thesis
    using assms(1-6) by (simp add: register_route_def save_new_def Let_def new_Site_def)
qed

lemma register_route_succeeds:
  assumes "3 \<le> length d" and "length d \<le> 63" and "includes_str TLDS t"
    and "g \<noteq> []" and "target_validator g"
    and "bcrypt_hash e salt (''v12-'' @ toString_hex rnd) \<noteq> []"
    and "case ti of None \<Rightarrow> True | Some x \<Rightarrow> length x \<le> 100"
    and "case de of None \<Rightarrow> True | Some x \<Rightarrow> length x \<le> 500"
    and "\<forall>x \<in> set st. domain x \<noteq> toLowerCase d"
  shows "status (snd (register_route e now rnd salt (Some d) (Some t) (Some g) ti de st)) = 201"
proof -
  have d: "d \<noteq> []" using assms(1) by auto
  have t: "t \<noteq> []" using assms(3) by (auto simp: includes_str_def TLDS_def)
  have free: "findOne d t st = None"
    using assms(9) by (simp add: findOne_def first_index_None)
  have nodup: "\<not> list_ex (\<lambda>x. domain x = toLowerCase d) st"
    using assms(9) by (simp add: list_ex_iff)
  have valid: "validate (new_Site now d t g (bcrypt_hash e salt (''v12-'' @ toString_hex rnd)) ti de) = []"
    using assms(1-8) t d
    by (auto simp: validate_def new_Site_def validate_domain_def validate_tld_def
        validate_target_def validate_secretKeyHash_def validate_maxlength_def toLowerCase_def
        split: option.splits)
  show ?thesis
    using d t assms(3,4) free nodup valid
    by (simp add: register_route_def save_new_def Let_def truthy_def str_of_def new_Site_def)
qed

lemma example_register:
  "register_route example_env 5 example_rnd ''$$'' (Some ''MyApp'') (Some ''vc'')
       (Some ''https://github.com/u/r'') None None []
   = ([new_Site 5 ''myapp'' ''vc'' ''https://github.com/u/r'' ''$$v12-01020304050607ab'' None None],
      res_json 201 (JObj
                  [(''success'', JBool True),
                   (''domain'', JStr ''MyApp.vc''),
                   (''secretKey'', JStr ''v12-01020304050607ab''),
                   (''message'',
                    JStr ''SAVE THIS KEY! If you lose it, you cannot update your site.'')]))"
  by code_simp

lemma example_register_conflict:
  "register_route example_env 9 example_rnd ''$$'' (Some ''abc'') (Some ''vc'')
       (Some ''https://example.net/'') None None [example_site]
   = ([example_site], error_response 409 ''Domain already registered'')"
  by code_simp

text \<open>
  C5. Every successful registration answers 201 with a body of exactly four
  properties: \<open>success\<close>, the composed name \<open>label.tag\<close> (the property \<open>domain\<close> of the
  body), \<open>secretKey\<close> and \<open>message\<close>. The key is \<open>v12-\<close> followed by two lowercase
  hexadecimal digits for each random byte. The collection it leaves holds the new
  document with the hash of the key only: two registrations whose keys hash alike leave
  the same collection, so nothing read from the collection afterwards depends on the key
  beyond its hash. A registration that is not answered 201 stores nothing, and its body
  has no \<open>secretKey\<close> property.
\<close>

theorem register_success_response:
  assumes "register_route e now rnd salt d t g ti de st = (st', r)"
  shows "(status r = 201 \<longrightarrow>
       r = res_json 201 (JObj
                  [(''success'', JBool True),
                   (''domain'', JStr (str_of d @ ''.'' @ str_of t)),
                   (''secretKey'', JStr (''v12-'' @ toString_hex rnd)),
                   (''message'',
                    JStr ''SAVE THIS KEY! If you lose it, you cannot update your site.'')])
       \<and> length (toString_hex rnd) = 2 * length rnd
       \<and> set (toString_hex rnd) \<subseteq> set ''0123456789abcdef''
       \<and> st' = st @ [new_Site now (str_of d) (str_of t) (str_of g)
                        (bcrypt_hash e salt (''v12-'' @ toString_hex rnd)) ti de]
       \<and> (\<forall>rnd' salt'.
             bcrypt_hash e salt' (''v12-'' @ toString_hex rnd')
               = bcrypt_hash e salt (''v12-'' @ toString_hex rnd)
             \<longrightarrow> fst (register_route e now rnd' salt' d t g ti de st) = st'))
     \<and> (status r \<noteq> 201 \<longrightarrow> st' = st \<and> secret_free (body r))"
proof (cases "status r = 201")
  case True
  note ok = register_route_201[OF assms True]
  have 1: "r = res_json 201 (JObj
                  [(''success'', JBool True),
                   (''domain'', JStr (str_of d @ ''.'' @ str_of t)),
                   (''secretKey'', JStr (''v12-'' @ toString_hex rnd)),
                   (''message'',
                    JStr ''SAVE THIS KEY! If you lose it, you cannot update your site.'')])"
    using ok by (simp add: object_def)
  have 2: "st' = st @ [new_Site now (str_of d) (str_of t) (str_of g)
                      (bcrypt_hash e salt (''v12-'' @ toString_hex rnd)) ti de]"
    using ok by simp
  have 3: "\<forall>rnd' salt'.
           bcrypt_hash e salt' (''v12-'' @ toString_hex rnd')
             = bcrypt_hash e salt (''v12-'' @ toString_hex rnd)
           \<longrightarrow> fst (register_route e now rnd' salt' d t g ti de st) = st'"
    using register_route_same_hash[of e _ _ salt rnd now d t g ti de st] assms by simp
  from True 1 2 3 length_toString_hex toString_hex_digits show ?thesis by blast
next
  case False
  with register_route_not_201[OF assms] show ?thesis by blast
qed

theorem register_success_response_witness:
  "status (snd (register_route example_env 5 example_rnd ''$$'' (Some ''MyApp'') (Some ''vc'')
       (Some ''https://github.com/u/r'') None None [])) = 201
   \<and> get_prop ''secretKey'' (body (snd (register_route example_env 5 example_rnd ''$$''
        (Some ''MyApp'') (Some ''vc'') (Some ''https://github.com/u/r'') None None [])))
       = JStr (''v12-'' @ toString_hex example_rnd)
   \<and> toString_hex example_rnd = ''01020304050607ab''
   \<and> fst (register_route example_env 5 example_rnd ''$$''
        (Some ''MyApp'') (Some ''vc'') (Some ''https://github.com/u/r'') None None [])
       = [new_Site 5 ''myapp'' ''vc'' ''https://github.com/u/r'' ''$$v12-01020304050607ab'' None None]
   \<and> status (error_response 409 ''Domain already registered'') \<noteq> 201
   \<and> secret_free (body (error_response 409 ''Domain already registered''))"
proof -
  have s: "status (res_json 201 b) = 201" for b by simp
  have hex: "toString_hex example_rnd = ''01020304050607ab''" by code_simp
  note t = register_success_response[OF example_register]
  from t s have r: "res_json 201 (JObj
                  [(''success'', JBool True),
                   (''domain'', JStr ''MyApp.vc''),
                   (''secretKey'', JStr ''v12-01020304050607ab''),
                   (''message'',
                    JStr ''SAVE THIS KEY! If you lose it, you cannot update your site.'')])
     = res_json 201 (JObj
                  [(''success'', JBool True),
                   (''domain'', JStr (str_of (Some ''MyApp'') @ ''.'' @ str_of (Some ''vc''))),
                   (''secretKey'', JStr (''v12-'' @ toString_hex example_rnd)),
                   (''message'',
                    JStr ''SAVE THIS KEY! If you lose it, you cannot update your site.'')])"
    by blast
  from t s have f: "fst (register_route example_env 5 example_rnd ''$$''
        (Some ''MyApp'') (Some ''vc'') (Some ''https://github.com/u/r'') None None [])
       = [new_Site 5 ''myapp'' ''vc'' ''https://github.com/u/r'' ''$$v12-01020304050607ab'' None None]"
    by blast
  have 1: "status (snd (register_route example_env 5 example_rnd ''$$'' (Some ''MyApp'') (Some ''vc'')
       (Some ''https://github.com/u/r'') None None [])) = 201"
    by (simp only: example_register snd_conv s)
  have 2: "get_prop ''secretKey'' (body (snd (register_route example_env 5 example_rnd ''$$''
        (Some ''MyApp'') (Some ''vc'') (Some ''https://github.com/u/r'') None None [])))
       = JStr (''v12-'' @ toString_hex example_rnd)"
    by (simp only: example_register snd_conv r) simp
  have n: "status (error_response 409 ''Domain already registered'') \<noteq> 201" by simp
  with register_success_response[OF example_register_conflict]
  have 3: "secret_free (body (error_response 409 ''Domain already registered''))"
    by blast
  from 1 2 hex f n 3 show ?thesis by blast
qed

text \<open>
  C1. The claim: with a valid tag and target, register answers 409 exactly when the pair
  of label and tag is stored, and it succeeds when the label is stored under another tag
  only. The first half holds (\<open>register_route_conflict_iff\<close>). The second does not:
  the schema declares \<open>unique: true\<close> on \<open>domain\<close> alone, so with \<open>abc.vc\<close> stored the
  check route reports \<open>abc.at\<close> available, and the registration of \<open>abc.at\<close> passes
  the conflict test, is refused by the index on insert and is answered 500.
\<close>

theorem register_label_under_other_tag:
  assumes "truthy d" and "truthy t" and "truthy g" and "includes_str TLDS (str_of t)"
    and "findOne (str_of d) (str_of t) st = None"
    and "validate (new_Site now (str_of d) (str_of t) (str_of g)
           (bcrypt_hash e salt (''v12-'' @ toString_hex rnd)) ti de) = []"
    and "x \<in> set st" and "domain x = toLowerCase (str_of d)"
  shows "get_prop ''available'' (body (check_route (str_of d) t st)) = JBool True
     \<and> register_route e now rnd salt d t g ti de st = (st, error_response 500 ''Server error'')"
proof -
  have "get_prop ''available'' (body (check_route (str_of d) t st)) = JBool True"
    using assms(2,4,5) by (cases t) (simp_all add: check_route_def truthy_def object_def jopt_def)
  with register_route_duplicate_domain[OF assms] show ?thesis by simp
qed

theorem register_label_under_other_tag_witness:
  "findOne ''abc'' ''vc'' [example_site] = Some (0, example_site)
   \<and> findOne ''abc'' ''at'' [example_site] = None
   \<and> get_prop ''available'' (body (check_route ''abc'' (Some ''at'') [example_site])) = JBool True
   \<and> register_route example_env 9 example_rnd ''$$'' (Some ''abc'') (Some ''at'')
        (Some ''https://example.net/'') None None [example_site]
      = ([example_site], error_response 500 ''Server error'')"
proof -
  have a: "truthy (Some ''abc'')" "truthy (Some ''at'')" "truthy (Some ''https://example.net/'')"
    by (simp_all add: truthy_def)
  have b: "includes_str TLDS (str_of (Some ''at''))"
    by (simp add: includes_str_def TLDS_def str_of_def)
  have stored: "findOne ''abc'' ''vc'' [example_site] = Some (0, example_site)"
    by code_simp
  have free: "findOne ''abc'' ''at'' [example_site] = None"
    by code_simp
  then have free': "findOne (str_of (Some ''abc'')) (str_of (Some ''at'')) [example_site] = None"
    by (simp add: str_of_def)
  have v: "validate (new_Site 9 (str_of (Some ''abc'')) (str_of (Some ''at''))
           (str_of (Some ''https://example.net/''))
           (bcrypt_hash example_env ''$$'' (''v12-'' @ toString_hex example_rnd)) None None) = []"
    by code_simp
  have m: "example_site \<in> set [example_site]" by simp
  have dm: "domain example_site = toLowerCase (str_of (Some ''abc''))" by code_simp
  from register_label_under_other_tag[OF a b free' v m dm]
  have "get_prop ''available'' (body (check_route ''abc'' (Some ''at'') [example_site])) = JBool True
     \<and> register_route example_env 9 example_rnd ''$$'' (Some ''abc'') (Some ''at'')
        (Some ''https://example.net/'') None None [example_site]
      = ([example_site], error_response 500 ''Server error'')"
    by (simp add: str_of_def)
  with stored free show ?thesis by blast
qed

section \<open>Lookup after registration\<close>

lemma lookup_route_found:
  assumes "includes_str TLDS t" and "findOne d t st = Some (i, s)" and "validate s = []"
  shows "lookup_route now d t st =
     (st[i := s\<lparr>lastAccessed := now\<rparr>], res_json 200 (object
                    [(''domain'', JStr (domain s)),
                     (''tld'', JStr (tld s)),
                     (''target'', JStr (target s)),
                     (''rawBase'', JStr (rawBase_of (target s))),
                     (''title'', jopt (title s)),
                     (''description'', jopt (description s)),
                     (''verified'', JBool (verified s)),
                     (''createdAt'', JDate (createdAt s)),
                     (''lastAccessed'', JDate now)]))"
  using assms by (simp add: lookup_route_def save_at_def)

text \<open>
  C3. When a registration has succeeded (status 201), a lookup of the same label and tag
  on the collection it leaves answers 200 with the registered target, and with a
  \<open>rawBase\<close> that is the rewrite of the target: the target itself when it does not
  start with \<open>https://github.com/\<close>, and otherwise the form with the host replaced,
  the first \<open>/blob/\<close> removed and one slash at the end.
\<close>

theorem register_then_lookup:
  assumes "register_route e now rnd salt d t g ti de st = (st', r)" and "status r = 201"
  shows "status (snd (lookup_route now' (str_of d) (str_of t) st')) = 200
     \<and> get_prop ''target'' (body (snd (lookup_route now' (str_of d) (str_of t) st'))) = JStr (str_of g)
     \<and> get_prop ''rawBase'' (body (snd (lookup_route now' (str_of d) (str_of t) st')))
         = JStr (rawBase_of (str_of g))
     \<and> (\<not> startsWith (str_of g) ''https://github.com/'' \<longrightarrow> rawBase_of (str_of g) = str_of g)
     \<and> (\<forall>rest. str_of g = ''https://github.com/'' @ rest \<longrightarrow>
           rawBase_of (str_of g) =
             strip_trailing_slash
               (replace ''/blob/'' ''/'' (''https://raw.githubusercontent.com/'' @ rest)) @ ''/''
           \<and> prefix ''https://raw.githubusercontent.com/'' (rawBase_of (str_of g))
           \<and> suffix ''/'' (rawBase_of (str_of g)))"
proof -
  define newSite where
    "newSite = new_Site now (str_of d) (str_of t) (str_of g)
                 (bcrypt_hash e salt (''v12-'' @ toString_hex rnd)) ti de"
  from register_route_201[OF assms]
  have tag: "includes_str TLDS (str_of t)"
    and free: "findOne (str_of d) (str_of t) st = None"
    and valid: "validate newSite = []"
    and st': "st' = st @ [newSite]"
    by (simp_all add: newSite_def)
  have found: "findOne (str_of d) (str_of t) st' = Some (length st, newSite)"
    unfolding st' newSite_def by (rule findOne_new_Site[OF free])
  have tg: "target newSite = str_of g"
    by (simp add: newSite_def new_Site_def)
  note lk = lookup_route_found[OF tag found valid, of now']
  have 1: "status (snd (lookup_route now' (str_of d) (str_of t) st')) = 200"
    by (simp add: lk)
  have 2: "get_prop ''target'' (body (snd (lookup_route now' (str_of d) (str_of t) st'))) = JStr (str_of g)"
    by (simp only: lk snd_conv body_res_json get_prop_object_target tg)
  have 3: "get_prop ''rawBase'' (body (snd (lookup_route now' (str_of d) (str_of t) st')))
         = JStr (rawBase_of (str_of g))"
    by (simp only: lk snd_conv body_res_json get_prop_object_rawBase tg)
  have 4: "\<not> startsWith (str_of g) ''https://github.com/'' \<longrightarrow> rawBase_of (str_of g) = str_of g"
    by (simp add: rawBase_of_def)
  have 5: "\<forall>rest. str_of g = ''https://github.com/'' @ rest \<longrightarrow>
           rawBase_of (str_of g) =
             strip_trailing_slash
               (replace ''/blob/'' ''/'' (''https://raw.githubusercontent.com/'' @ rest)) @ ''/''
           \<and> prefix ''https://raw.githubusercontent.com/'' (rawBase_of (str_of g))
           \<and> suffix ''/'' (rawBase_of (str_of g))"
    using rawBase_of_github_form rawBase_of_github_shape by (metis (no_types))
  from 1 2 3 4 5 show ?thesis by blast
qed

theorem register_then_lookup_witness:
  "status (snd (register_route example_env 5 example_rnd ''$$'' (Some ''MyApp'') (Some ''vc'')
       (Some ''https://github.com/u/r'') None None [])) = 201
   \<and> get_prop ''target'' (body (snd (lookup_route 7 ''MyApp'' ''vc''
        [new_Site 5 ''myapp'' ''vc'' ''https://github.com/u/r'' ''$$v12-01020304050607ab'' None None])))
       = JStr ''https://github.com/u/r''
   \<and> get_prop ''rawBase'' (body (snd (lookup_route 7 ''MyApp'' ''vc''
        [new_Site 5 ''myapp'' ''vc'' ''https://github.com/u/r'' ''$$v12-01020304050607ab'' None None])))
       = JStr ''https://raw.githubusercontent.com/u/r/''"
proof -
  have s: "status (res_json 201 b) = 201" for b by simp
  have rb: "rawBase_of ''https://github.com/u/r'' = ''https://raw.githubusercontent.com/u/r/''"
    by (simp add: rawBase_of_def startsWith_def strip_trailing_slash_def)
  from register_then_lookup[OF example_register s, of 7] rb
  show ?thesis by (simp add: example_register str_of_def)
qed

section \<open>Update and delete\<close>

lemma truthy_str_of: "truthy g \<Longrightarrow> str_of g \<noteq> []"
  by (cases g) (simp_all add: truthy_def str_of_def)

lemma apply_update_fields:
  "target (apply_update now g ti de s) = (if truthy g then str_of g else target s)"
  "title (apply_update now g ti de s) = (case ti of None \<Rightarrow> title s | Some x \<Rightarrow> Some x)"
  "description (apply_update now g ti de s) = (case de of None \<Rightarrow> description s | Some x \<Rightarrow> Some x)"
  "lastAccessed (apply_update now g ti de s) = now"
  "domain (apply_update now g ti de s) = domain s"
  "tld (apply_update now g ti de s) = tld s"
  "secretKeyHash (apply_update now g ti de s) = secretKeyHash s"
  "verified (apply_update now g ti de s) = verified s"
  "createdAt (apply_update now g ti de s) = createdAt s"
  "keywords_path (apply_update now g ti de s) = keywords_path s"
  "bodyText (apply_update now g ti de s) = bodyText s"
  "indexedAt (apply_update now g ti de s) = indexedAt s"
  by (simp_all add: apply_update_def Let_def split: option.splits)

lemma target_apply_update: "truthy g \<Longrightarrow> target (apply_update now g ti de s) = str_of g"
  by (simp add: apply_update_def Let_def)

lemma apply_update_rehash:
  "apply_update now g ti de (s\<lparr>secretKeyHash := h\<rparr>) = (apply_update now g ti de s)\<lparr>secretKeyHash := h\<rparr>"
  by (simp add: apply_update_def Let_def)

lemma secretKeyHash_apply_update: "secretKeyHash (apply_update now g ti de s) = secretKeyHash s"
  by (simp add: apply_update_def Let_def)

lemma update_route_200:
  assumes "update_route e now d t k g ti de st = (st', r)" and "status r = 200"
  shows "\<exists>i found. findOne (str_of d) (str_of t) st = Some (i, found)
      \<and> bcrypt_compare e (str_of k) (secretKeyHash found)
      \<and> validate (apply_update now g ti de found) = []
      \<and> st' = st[i := apply_update now g ti de found]"
  using assms unfolding update_route_def save_at_def Let_def
  by (auto split: if_splits option.splits sum.splits)

lemma example_update:
  "update_route example_env 9 (Some ''abc'') (Some ''vc'') (Some ''v12-01020304050607ab'')
        (Some ''https://new.example/'') (Some []) None [example_site]
   = ([example_site\<lparr>target := ''https://new.example/'', title := Some [], lastAccessed := 9\<rparr>],
      res_json 200 (JObj
                      [(''success'', JBool True),
                       (''message'', JStr ''Domain updated successfully''),
                       (''site'', JObj
                          [(''domain'', JStr ''abc''),
                           (''tld'', JStr ''vc''),
                           (''target'', JStr ''https://new.example/''),
                           (''title'', JStr []),
                           (''lastAccessed'', JDate 9)])]))"
  by code_simp

text \<open>
  C6, as amended. Every update that is authorized and that the schema accepts (it answers
  200) changes the document that was found and no other: \<open>target\<close> becomes the given one
  when a non-empty one is given, \<open>title\<close> and \<open>description\<close> become the given ones
  when they are given (the empty string included), \<open>lastAccessed\<close> becomes the time of
  the request, and every other path keeps its value.
\<close>

theorem update_route_frame:
  assumes "update_route e now d t k g ti de st = (st', r)" and "status r = 200"
  shows "\<exists>i found. findOne (str_of d) (str_of t) st = Some (i, found)
      \<and> i < length st \<and> st ! i = found
      \<and> bcrypt_compare e (str_of k) (secretKeyHash found)
      \<and> length st' = length st
      \<and> (\<forall>j < length st. j \<noteq> i \<longrightarrow> st' ! j = st ! j)
      \<and> target (st' ! i) = (if truthy g then str_of g else target found)
      \<and> title (st' ! i) = (case ti of None \<Rightarrow> title found | Some x \<Rightarrow> Some x)
      \<and> description (st' ! i) = (case de of None \<Rightarrow> description found | Some x \<Rightarrow> Some x)
      \<and> lastAccessed (st' ! i) = now
      \<and> domain (st' ! i) = domain found
      \<and> tld (st' ! i) = tld found
      \<and> secretKeyHash (st' ! i) = secretKeyHash found
      \<and> verified (st' ! i) = verified found
      \<and> createdAt (st' ! i) = createdAt found
      \<and> keywords_path (st' ! i) = keywords_path found
      \<and> bodyText (st' ! i) = bodyText found
      \<and> indexedAt (st' ! i) = indexedAt found"
proof -
  from update_route_200[OF assms] obtain i found where
    f: "findOne (str_of d) (str_of t) st = Some (i, found)"
    and c: "bcrypt_compare e (str_of k) (secretKeyHash found)"
    and st': "st' = st[i := apply_update now g ti de found]"
    by blast
  from f have i: "i < length st" "st ! i = found"
    unfolding findOne_def by (auto dest: first_index_Some)
  have at: "st' ! i = apply_update now g ti de found"
    using i st' by simp
  have others: "\<forall>j < length st. j \<noteq> i \<longrightarrow> st' ! j = st ! j"
    using st' by simp
  have len: "length st' = length st" using st' by simp
  show ?thesis
    apply (rule exI[of _ i], rule exI[of _ found])
    apply (simp only: at apply_update_fields)
    using f i c len others by simp
qed

theorem update_route_frame_witness:
  "status (snd (update_route example_env 9 (Some ''abc'') (Some ''vc'') (Some ''v12-01020304050607ab'')
        (Some ''https://new.example/'') (Some []) None [example_site])) = 200
   \<and> target (fst (update_route example_env 9 (Some ''abc'') (Some ''vc'')
        (Some ''v12-01020304050607ab'') (Some ''https://new.example/'') (Some []) None
        [example_site]) ! 0) = ''https://new.example/''
   \<and> title (fst (update_route example_env 9 (Some ''abc'') (Some ''vc'')
        (Some ''v12-01020304050607ab'') (Some ''https://new.example/'') (Some []) None
        [example_site]) ! 0) = Some []
   \<and> description (fst (update_route example_env 9 (Some ''abc'') (Some ''vc'')
        (Some ''v12-01020304050607ab'') (Some ''https://new.example/'') (Some []) None
        [example_site]) ! 0) = description example_site
   \<and> lastAccessed (fst (update_route example_env 9 (Some ''abc'') (Some ''vc'')
        (Some ''v12-01020304050607ab'') (Some ''https://new.example/'') (Some []) None
        [example_site]) ! 0) = 9
   \<and> secretKeyHash (fst (update_route example_env 9 (Some ''abc'') (Some ''vc'')
        (Some ''v12-01020304050607ab'') (Some ''https://new.example/'') (Some []) None
        [example_site]) ! 0) = secretKeyHash example_site"
proof -
  have s: "status (res_json 200 b) = 200" for b by simp
  from update_route_frame[OF example_update s] obtain i found where
    f: "findOne (str_of (Some ''abc'')) (str_of (Some ''vc'')) [example_site] = Some (i, found)"
    and rest: "target ([example_site\<lparr>target := ''https://new.example/'', title := Some [],
                   lastAccessed := 9\<rparr>] ! i)
         = (if truthy (Some ''https://new.example/'') then str_of (Some ''https://new.example/'')
            else target found)"
      "title ([example_site\<lparr>target := ''https://new.example/'', title := Some [],
                   lastAccessed := 9\<rparr>] ! i)
         = (case Some [] of None \<Rightarrow> title found | Some x \<Rightarrow> Some x)"
      "description ([example_site\<lparr>target := ''https://new.example/'', title := Some [],
                   lastAccessed := 9\<rparr>] ! i)
         = (case None of None \<Rightarrow> description found | Some x \<Rightarrow> Some x)"
      "lastAccessed ([example_site\<lparr>target := ''https://new.example/'', title := Some [],
                   lastAccessed := 9\<rparr>] ! i) = 9"
      "secretKeyHash ([example_site\<lparr>target := ''https://new.example/'', title := Some [],
                   lastAccessed := 9\<rparr>] ! i) = secretKeyHash found"
    by blast
  from f have "i = 0" "found = example_site"
    by (simp_all add: str_of_def example_findOne)
  with rest show ?thesis
    by (simp add: example_update truthy_def str_of_def)
qed

text \<open>
  The claim C6 as stated speaks of every authorized update. An authorized update whose
  new target the schema refuses is answered 500 and writes nothing, so \<open>lastAccessed\<close>
  is not refreshed.
\<close>

theorem update_authorized_not_refreshed:
  "bcrypt_compare example_env ''v12-01020304050607ab'' (secretKeyHash example_site)
   \<and> update_route example_env 9 (Some ''abc'') (Some ''vc'') (Some ''v12-01020304050607ab'')
        (Some ''http://example.org/'') None None [example_site]
       = ([example_site], error_response 500 ''Server error'')
   \<and> lastAccessed example_site = 3"
  by code_simp

lemma findOne_cast_string:
  "findOne_cast c (Some (JsString s)) t st = Some (findOne s t st)"
  by (simp add: findOne_cast_def domain_filter_def findOne_def)

lemma js_truthy_string: "js_truthy (map_option JsString v) = truthy v"
  by (cases v) (simp_all add: js_truthy_def truthy_def)

lemma js_includes_string: "js_includes xs (map_option JsString v) = (v \<noteq> None \<and> includes_str xs (str_of v))"
  by (cases v) (simp_all add: js_includes_def str_of_def)

lemma js_str_string: "js_str (map_option JsString v) = str_of v"
  by (cases v) (simp_all add: js_str_def str_of_def)

lemma compare_secret_string:
  "truthy k \<Longrightarrow> compare_secret e (map_option JsString k) h = Some (bcrypt_compare e (str_of k) h)"
  by (cases k) (simp_all add: compare_secret_def str_of_def truthy_def)

lemma findOne_cast_strings:
  "truthy d \<Longrightarrow> findOne_cast c (map_option JsString d) t st = Some (findOne (str_of d) t st)"
  by (cases d) (simp_all add: findOne_cast_string str_of_def truthy_def)

lemma truthy_not_None: "truthy v \<Longrightarrow> v \<noteq> None"
  by (cases v) (simp_all add: truthy_def)

text \<open>
  On a body whose required fields are strings or absent, \<open>update_request\<close> and
  \<open>delete_request\<close> are \<open>update_route\<close> and \<open>delete_route\<close>, whatever the cast of
  other filter values is.
\<close>

lemma update_request_strings:
  "update_request e c now
     (Some \<lparr> req_domain = map_option JsString d, req_tld = map_option JsString t,
             req_secretKey = map_option JsString k, req_target = g, req_title = ti,
             req_description = de \<rparr>) st
   = update_route e now d t k g ti de st"
proof (cases "truthy d \<and> truthy t \<and> truthy k")
  case False
  then show ?thesis
    by (auto simp: update_request_def update_route_def js_truthy_string)
next
  case True
  then have d: "truthy d" and t: "truthy t" and k: "truthy k" by simp_all
  show ?thesis
    using d t k truthy_not_None[OF t]
    by (simp add: update_request_def update_route_def js_truthy_string js_includes_string
        js_str_string findOne_cast_strings compare_secret_string
        split: option.splits)
qed

lemma delete_request_strings:
  "delete_request e c
     (Some \<lparr> req_domain = map_option JsString d, req_tld = map_option JsString t,
             req_secretKey = map_option JsString k \<rparr>) st
   = delete_route e d t k st"
proof (cases "truthy d \<and> truthy t \<and> truthy k")
  case False
  then show ?thesis
    by (auto simp: delete_request_def delete_route_def js_truthy_string)
next
  case True
  then have d: "truthy d" and t: "truthy t" and k: "truthy k" by simp_all
  show ?thesis
    using d t k truthy_not_None[OF t]
    by (simp add: delete_request_def delete_route_def js_truthy_string js_includes_string
        js_str_string findOne_cast_strings compare_secret_string
        split: option.splits)
qed

lemma compare_secret_not_string:
  "(\<forall>key. k \<noteq> Some (JsString key)) \<Longrightarrow> compare_secret e k h = None"
  by (auto simp: compare_secret_def split: option.splits jsvalue.splits)

text \<open>
  C7, as amended. On a request that has a body, update and delete test in a fixed order and
  answer each failure with its own response, leaving the collection as it was: a required
  field (\<open>domain\<close>, \<open>tld\<close>, \<open>secretKey\<close>) that is absent or falsy gives 400
  \<open>Missing required fields\<close> whatever the tag is; then a tag that is not one of the four
  strings gives 400 \<open>Invalid TLD\<close>; then a lookup that finds no document gives 404
  whatever the secret is (for a label that is a string the lookup is \<open>findOne\<close> of the
  pair); then a secret that is a string and does not verify gives 401. The \<open>catch\<close> of
  the routes answers 500 \<open>Server error\<close>, the collection again as it was, when the
  request has no body, when the label cannot be cast into a filter, and when a document is
  found and the secret is truthy but no string. The five responses are pairwise different.
\<close>

theorem update_delete_error_precedence:
  fixes d t k :: "jsvalue option" and g ti de :: "string option"
  defines "bu \<equiv> \<lparr> req_domain = d, req_tld = t, req_secretKey = k, req_target = g,
                    req_title = ti, req_description = de \<rparr>"
  defines "bd \<equiv> \<lparr> req_domain = d, req_tld = t, req_secretKey = k \<rparr>"
  shows
  "(\<not> js_truthy d \<or> \<not> js_truthy t \<or> \<not> js_truthy k \<longrightarrow>
      update_request e c now (Some bu) st = (st, error_response 400 ''Missing required fields'')
      \<and> delete_request e c (Some bd) st = (st, error_response 400 ''Missing required fields''))
   \<and> (js_truthy d \<and> js_truthy t \<and> js_truthy k \<and> \<not> js_includes TLDS t \<longrightarrow>
      update_request e c now (Some bu) st = (st, error_response 400 ''Invalid TLD'')
      \<and> delete_request e c (Some bd) st = (st, error_response 400 ''Invalid TLD''))
   \<and> (js_truthy d \<and> js_truthy t \<and> js_truthy k \<and> js_includes TLDS t
       \<and> findOne_cast c d (js_str t) st = Some None \<longrightarrow>
      update_request e c now (Some bu) st = (st, error_response 404 ''Domain not found'')
      \<and> delete_request e c (Some bd) st = (st, error_response 404 ''Domain not found''))
   \<and> (js_truthy d \<and> js_truthy t \<and> js_truthy k \<and> js_includes TLDS t
       \<and> findOne_cast c d (js_str t) st = Some (Some (i, found))
       \<and> k = Some (JsString key) \<and> \<not> bcrypt_compare e key (secretKeyHash found) \<longrightarrow>
      update_request e c now (Some bu) st = (st, error_response 401 ''Invalid secret key'')
      \<and> delete_request e c (Some bd) st = (st, error_response 401 ''Invalid secret key''))
   \<and> findOne_cast c (Some (JsString label)) (js_str t) st = Some (findOne label (js_str t) st)
   \<and> distinct [error_response 400 ''Missing required fields'', error_response 400 ''Invalid TLD'',
                error_response 404 ''Domain not found'', error_response 401 ''Invalid secret key'',
                error_response 500 ''Server error'']
   \<and> update_request e c now None st = (st, error_response 500 ''Server error'')
   \<and> delete_request e c None st = (st, error_response 500 ''Server error'')
   \<and> (js_truthy d \<and> js_truthy t \<and> js_truthy k \<and> js_includes TLDS t
       \<and> findOne_cast c d (js_str t) st = None \<longrightarrow>
      update_request e c now (Some bu) st = (st, error_response 500 ''Server error'')
      \<and> delete_request e c (Some bd) st = (st, error_response 500 ''Server error''))
   \<and> (js_truthy d \<and> js_truthy t \<and> js_truthy k \<and> js_includes TLDS t
       \<and> findOne_cast c d (js_str t) st = Some (Some (i, found))
       \<and> (\<forall>key. k \<noteq> Some (JsString key)) \<longrightarrow>
      update_request e c now (Some bu) st = (st, error_response 500 ''Server error'')
      \<and> delete_request e c (Some bd) st = (st, error_response 500 ''Server error''))"
proof -
  have 1: "\<not> js_truthy d \<or> \<not> js_truthy t \<or> \<not> js_truthy k \<longrightarrow>
      update_request e c now (Some bu) st = (st, error_response 400 ''Missing required fields'')
      \<and> delete_request e c (Some bd) st = (st, error_response 400 ''Missing required fields'')"
    by (simp add: update_request_def delete_request_def bu_def bd_def)
  have 2: "js_truthy d \<and> js_truthy t \<and> js_truthy k \<and> \<not> js_includes TLDS t \<longrightarrow>
      update_request e c now (Some bu) st = (st, error_response 400 ''Invalid TLD'')
      \<and> delete_request e c (Some bd) st = (st, error_response 400 ''Invalid TLD'')"
    by (simp add: update_request_def delete_request_def bu_def bd_def)
  have 3: "js_truthy d \<and> js_truthy t \<and> js_truthy k \<and> js_includes TLDS t
       \<and> findOne_cast c d (js_str t) st = Some None \<longrightarrow>
      update_request e c now (Some bu) st = (st, error_response 404 ''Domain not found'')
      \<and> delete_request e c (Some bd) st = (st, error_response 404 ''Domain not found'')"
    by (simp add: update_request_def delete_request_def bu_def bd_def)
  have 4: "js_truthy d \<and> js_truthy t \<and> js_truthy k \<and> js_includes TLDS t
       \<and> findOne_cast c d (js_str t) st = Some (Some (i, found))
       \<and> k = Some (JsString key) \<and> \<not> bcrypt_compare e key (secretKeyHash found) \<longrightarrow>
      update_request e c now (Some bu) st = (st, error_response 401 ''Invalid secret key'')
      \<and> delete_request e c (Some bd) st = (st, error_response 401 ''Invalid secret key'')"
    by (auto simp: update_request_def delete_request_def bu_def bd_def compare_secret_def)
  have 5: "findOne_cast c (Some (JsString label)) (js_str t) st = Some (findOne label (js_str t) st)"
    by (rule findOne_cast_string)
  have 6: "distinct [error_response 400 ''Missing required fields'', error_response 400 ''Invalid TLD'',
                error_response 404 ''Domain not found'', error_response 401 ''Invalid secret key'',
                error_response 500 ''Server error'']"
    by (simp add: error_responses_distinct)
  have 7: "update_request e c now None st = (st, error_response 500 ''Server error'')"
    "delete_request e c None st = (st, error_response 500 ''Server error'')"
    by (simp_all add: update_request_def delete_request_def)
  have 8: "js_truthy d \<and> js_truthy t \<and> js_truthy k \<and> js_includes TLDS t
       \<and> findOne_cast c d (js_str t) st = None \<longrightarrow>
      update_request e c now (Some bu) st = (st, error_response 500 ''Server error'')
      \<and> delete_request e c (Some bd) st = (st, error_response 500 ''Server error'')"
    by (simp add: update_request_def delete_request_def bu_def bd_def)
  have 9: "js_truthy d \<and> js_truthy t \<and> js_truthy k \<and> js_includes TLDS t
       \<and> findOne_cast c d (js_str t) st = Some (Some (i, found))
       \<and> (\<forall>key. k \<noteq> Some (JsString key)) \<longrightarrow>
      update_request e c now (Some bu) st = (st, error_response 500 ''Server error'')
      \<and> delete_request e c (Some bd) st = (st, error_response 500 ''Server error'')"
    by (simp add: update_request_def delete_request_def bu_def bd_def compare_secret_not_string)
  from 1 2 3 4 5 6 7 8 9 show ?thesis by (intro conjI)
qed

theorem update_delete_error_precedence_witness:
  "update_request example_env example_cast 9
      (Some \<lparr> req_domain = Some (JsString ''abc''), req_tld = Some (JsString ''nope''),
              req_secretKey = Some (JsNumber 0), req_target = None, req_title = None,
              req_description = None \<rparr>) [example_site]
      = ([example_site], error_response 400 ''Missing required fields'')
   \<and> delete_request example_env example_cast
      (Some \<lparr> req_domain = Some (JsString ''abc''), req_tld = Some (JsBool True),
              req_secretKey = Some (JsString ''wrong'') \<rparr>) [example_site]
      = ([example_site], error_response 400 ''Invalid TLD'')
   \<and> update_request example_env example_cast 9
      (Some \<lparr> req_domain = Some (JsArray [JsString ''other'']), req_tld = Some (JsString ''vc''),
              req_secretKey = Some (JsNumber 7), req_target = None, req_title = None,
              req_description = None \<rparr>) [example_site]
      = ([example_site], error_response 404 ''Domain not found'')
   \<and> delete_request example_env example_cast
      (Some \<lparr> req_domain = Some (JsString ''abc''), req_tld = Some (JsString ''vc''),
              req_secretKey = Some (JsString ''wrong'') \<rparr>) [example_site]
      = ([example_site], error_response 401 ''Invalid secret key'')
   \<and> update_request example_env example_cast 9
      (Some \<lparr> req_domain = Some (JsString ''abc''), req_tld = Some (JsString ''vc''),
              req_secretKey = Some (JsString ''wrong''),
              req_target = Some ''https://new.example/'', req_title = None,
              req_description = None \<rparr>) [example_site]
      = ([example_site], error_response 401 ''Invalid secret key'')
   \<and> delete_request example_env example_cast
      (Some \<lparr> req_domain = Some (JsObject [(''$ne'', JsNull)]), req_tld = Some (JsString ''vc''),
              req_secretKey = Some (JsString ''wrong'') \<rparr>) [example_site]
      = ([example_site], error_response 500 ''Server error'')
   \<and> delete_request example_env example_cast
      (Some \<lparr> req_domain = Some (JsString ''abc''), req_tld = Some (JsString ''vc''),
              req_secretKey = Some (JsNumber 12345) \<rparr>) [example_site]
      = ([example_site], error_response 500 ''Server error'')"
proof -
  have tr: "js_truthy (Some (JsString ''abc''))" "js_truthy (Some (JsString ''nope''))"
    "js_truthy (Some (JsString ''vc''))" "js_truthy (Some (JsString ''wrong''))"
    "js_truthy (Some (JsBool True))" "js_truthy (Some (JsArray [JsString ''other'']))"
    "js_truthy (Some (JsNumber 7))" "js_truthy (Some (JsNumber 12345))"
    "js_truthy (Some (JsObject [(''$ne'', JsNull)]))"
    by (simp_all add: js_truthy_def)
  have fa: "\<not> js_truthy (Some (JsNumber 0))" by (simp add: js_truthy_def)
  have inc: "js_includes TLDS (Some (JsString ''vc''))" "\<not> js_includes TLDS (Some (JsBool True))"
    by (simp_all add: js_includes_def includes_str_def TLDS_def)
  have none: "findOne_cast example_cast (Some (JsArray [JsString ''other'']))
      (js_str (Some (JsString ''vc''))) [example_site] = Some None"
    by code_simp
  have found: "findOne_cast example_cast (Some (JsString ''abc''))
      (js_str (Some (JsString ''vc''))) [example_site] = Some (Some (0, example_site))"
    by code_simp
  have throws: "findOne_cast example_cast (Some (JsObject [(''$ne'', JsNull)]))
      (js_str (Some (JsString ''vc''))) [example_site] = None"
    by code_simp
  have wrong: "\<not> bcrypt_compare example_env ''wrong'' (secretKeyHash example_site)"
    by code_simp
  have nostr: "\<forall>key. Some (JsNumber 12345) \<noteq> Some (JsString key)" by simp
  from update_delete_error_precedence[where d="Some (JsString ''abc'')"
      and t="Some (JsString ''nope'')" and k="Some (JsNumber 0)" and e=example_env
      and c=example_cast and now=9 and g=None and ti=None and de=None
      and st="[example_site]"] fa
  have 1: "update_request example_env example_cast 9
      (Some \<lparr> req_domain = Some (JsString ''abc''), req_tld = Some (JsString ''nope''),
              req_secretKey = Some (JsNumber 0), req_target = None, req_title = None,
              req_description = None \<rparr>) [example_site]
      = ([example_site], error_response 400 ''Missing required fields'')"
    by blast
  from update_delete_error_precedence[where d="Some (JsString ''abc'')"
      and t="Some (JsBool True)" and k="Some (JsString ''wrong'')" and e=example_env
      and c=example_cast and st="[example_site]"] tr inc
  have 2: "delete_request example_env example_cast
      (Some \<lparr> req_domain = Some (JsString ''abc''), req_tld = Some (JsBool True),
              req_secretKey = Some (JsString ''wrong'') \<rparr>) [example_site]
      = ([example_site], error_response 400 ''Invalid TLD'')"
    by blast
  from update_delete_error_precedence[where d="Some (JsArray [JsString ''other''])"
      and t="Some (JsString ''vc'')" and k="Some (JsNumber 7)" and e=example_env
      and c=example_cast and now=9 and g=None and ti=None and de=None
      and st="[example_site]"] tr inc none
  have 3: "update_request example_env example_cast 9
      (Some \<lparr> req_domain = Some (JsArray [JsString ''other'']), req_tld = Some (JsString ''vc''),
              req_secretKey = Some (JsNumber 7), req_target = None, req_title = None,
              req_description = None \<rparr>) [example_site]
      = ([example_site], error_response 404 ''Domain not found'')"
    by blast
  from update_delete_error_precedence[where d="Some (JsString ''abc'')"
      and t="Some (JsString ''vc'')" and k="Some (JsString ''wrong'')" and e=example_env
      and c=example_cast and now=9 and g="Some ''https://new.example/''" and ti=None and de=None
      and st="[example_site]" and i=0 and found=example_site and key="''wrong''"]
    tr inc found wrong
  have 4: "delete_request example_env example_cast
      (Some \<lparr> req_domain = Some (JsString ''abc''), req_tld = Some (JsString ''vc''),
              req_secretKey = Some (JsString ''wrong'') \<rparr>) [example_site]
      = ([example_site], error_response 401 ''Invalid secret key'')"
    "update_request example_env example_cast 9
      (Some \<lparr> req_domain = Some (JsString ''abc''), req_tld = Some (JsString ''vc''),
              req_secretKey = Some (JsString ''wrong''),
              req_target = Some ''https://new.example/'', req_title = None,
              req_description = None \<rparr>) [example_site]
      = ([example_site], error_response 401 ''Invalid secret key'')"
    by blast+
  from update_delete_error_precedence[where d="Some (JsObject [(''$ne'', JsNull)])"
      and t="Some (JsString ''vc'')" and k="Some (JsString ''wrong'')" and e=example_env
      and c=example_cast and st="[example_site]"] tr inc throws
  have 5: "delete_request example_env example_cast
      (Some \<lparr> req_domain = Some (JsObject [(''$ne'', JsNull)]), req_tld = Some (JsString ''vc''),
              req_secretKey = Some (JsString ''wrong'') \<rparr>) [example_site]
      = ([example_site], error_response 500 ''Server error'')"
    by blast
  from update_delete_error_precedence[where d="Some (JsString ''abc'')"
      and t="Some (JsString ''vc'')" and k="Some (JsNumber 12345)" and e=example_env
      and c=example_cast and st="[example_site]" and i=0 and found=example_site]
    tr inc found nostr
  have 6: "delete_request example_env example_cast
      (Some \<lparr> req_domain = Some (JsString ''abc''), req_tld = Some (JsString ''vc''),
              req_secretKey = Some (JsNumber 12345) \<rparr>) [example_site]
      = ([example_site], error_response 500 ''Server error'')"
    by blast
  from 1 2 3 4 5 6 show ?thesis by (intro conjI)
qed

text \<open>
  The claim C7 as stated has every secret that does not verify against a stored record
  answered 401. A secret sent as a JSON number is truthy, so it passes the test for
  missing fields; \<open>bcrypt.compare\<close> rejects data that is no string, and the answer is
  500. A request without a body is answered 500 as well, not 400.
\<close>

theorem update_delete_number_secret:
  "findOne_cast example_cast (Some (JsString ''abc'')) ''vc'' [example_site]
     = Some (Some (0, example_site))
   \<and> js_truthy (Some (JsNumber 12345))
   \<and> delete_request example_env example_cast
        (Some \<lparr> req_domain = Some (JsString ''abc''), req_tld = Some (JsString ''vc''),
                req_secretKey = Some (JsNumber 12345) \<rparr>) [example_site]
       = ([example_site], error_response 500 ''Server error'')
   \<and> update_request example_env example_cast 9
        (Some \<lparr> req_domain = Some (JsString ''abc''), req_tld = Some (JsString ''vc''),
                req_secretKey = Some (JsNumber 12345), req_target = None, req_title = None,
                req_description = None \<rparr>) [example_site]
       = ([example_site], error_response 500 ''Server error'')
   \<and> delete_request example_env example_cast None [example_site]
       = ([example_site], error_response 500 ''Server error'')
   \<and> error_response 500 ''Server error'' \<noteq> error_response 401 ''Invalid secret key''
   \<and> error_response 500 ''Server error'' \<noteq> error_response 400 ''Missing required fields''"
  by code_simp

text \<open>
  C10, as amended. When update is called with the right label, tag and secret and a
  non-empty new target that the validator of the schema refuses, the collection stays as it
  was and the answer is 500 \<open>Server error\<close>; on register the same target is answered
  400 with the message of the validation error, which names the \<open>target\<close> path.
\<close>

theorem update_invalid_target:
  assumes "truthy g" and "\<not> target_validator (str_of g)"
  shows "(truthy d \<and> truthy t \<and> truthy k \<and> includes_str TLDS (str_of t)
          \<and> findOne (str_of d) (str_of t) st = Some (i, found)
          \<and> bcrypt_compare e (str_of k) (secretKeyHash found) \<longrightarrow>
            update_route e now d t k g ti de st = (st, error_response 500 ''Server error''))
       \<and> (truthy d \<and> truthy t \<and> includes_str TLDS (str_of t)
          \<and> findOne (str_of d) (str_of t) st = None \<longrightarrow>
            (\<exists>errs. register_route e now rnd salt d t g ti de st
                      = (st, error_response 400 (validation_message e errs))
                    \<and> (''target'', Custom) \<in> set errs))"
proof -
  have ne: "str_of g \<noteq> []" using assms(1) by (rule truthy_str_of)
  have upd: "validate (apply_update now g ti de found) \<noteq> []"
    using validate_invalid_target[OF ne assms(2) target_apply_update[OF assms(1)], of now ti de found]
    by (metis empty_iff list.set(1))
  have 1: "truthy d \<and> truthy t \<and> truthy k \<and> includes_str TLDS (str_of t)
          \<and> findOne (str_of d) (str_of t) st = Some (i, found)
          \<and> bcrypt_compare e (str_of k) (secretKeyHash found) \<longrightarrow>
            update_route e now d t k g ti de st = (st, error_response 500 ''Server error'')"
    using upd by (simp add: update_route_def save_at_def)
  define newSite where "newSite = new_Site now (str_of d) (str_of t) (str_of g)
      (bcrypt_hash e salt (''v12-'' @ toString_hex rnd)) ti de"
  have "target newSite = str_of g" by (simp add: newSite_def new_Site_def)
  from validate_invalid_target[OF ne assms(2) this]
  have reg: "(''target'', Custom) \<in> set (validate newSite)" .
  then have "validate newSite \<noteq> []" by auto
  then have 2: "truthy d \<and> truthy t \<and> includes_str TLDS (str_of t)
          \<and> findOne (str_of d) (str_of t) st = None \<longrightarrow>
            register_route e now rnd salt d t g ti de st
                      = (st, error_response 400 (validation_message e (validate newSite)))"
    using assms(1) by (simp add: register_route_def save_new_def newSite_def)
  from 1 2 reg show ?thesis by blast
qed

theorem update_invalid_target_witness:
  "update_route example_env 9 (Some ''abc'') (Some ''vc'') (Some ''v12-01020304050607ab'')
       (Some ''ftp://example.org/'') None None [example_site]
     = ([example_site], error_response 500 ''Server error'')
   \<and> (\<exists>errs. register_route example_env 9 example_rnd ''$$'' (Some ''other'') (Some ''vc'')
        (Some ''ftp://example.org/'') None None [example_site]
     = ([example_site], error_response 400 (validation_message example_env errs))
       \<and> (''target'', Custom) \<in> set errs)"
proof -
  have g: "truthy (Some ''ftp://example.org/'')" by (simp add: truthy_def)
  have v: "\<not> target_validator (str_of (Some ''ftp://example.org/''))" by code_simp
  have b: "truthy (Some ''abc'')" "truthy (Some ''vc'')" "truthy (Some ''v12-01020304050607ab'')"
    "truthy (Some ''other'')"
    by (simp_all add: truthy_def)
  have c: "includes_str TLDS (str_of (Some ''vc''))"
    by (simp add: includes_str_def TLDS_def str_of_def)
  have f: "findOne (str_of (Some ''abc'')) (str_of (Some ''vc'')) [example_site] = Some (0, example_site)"
    by code_simp
  have n: "findOne (str_of (Some ''other'')) (str_of (Some ''vc'')) [example_site] = None"
    by code_simp
  have k: "bcrypt_compare example_env (str_of (Some ''v12-01020304050607ab''))
      (secretKeyHash example_site)"
    by code_simp
  from update_invalid_target[OF g v, where d="Some ''abc''" and t="Some ''vc''"
      and k="Some ''v12-01020304050607ab''" and e=example_env and now=9 and ti=None and de=None
      and st="[example_site]" and i=0 and found=example_site] b c f k
  have 1: "update_route example_env 9 (Some ''abc'') (Some ''vc'') (Some ''v12-01020304050607ab'')
       (Some ''ftp://example.org/'') None None [example_site]
     = ([example_site], error_response 500 ''Server error'')"
    by blast
  from update_invalid_target[OF g v, where d="Some ''other''" and t="Some ''vc''"
      and e=example_env and now=9 and ti=None and de=None and rnd=example_rnd and salt="''$$''"
      and st="[example_site]"] b c n
  have 2: "\<exists>errs. register_route example_env 9 example_rnd ''$$'' (Some ''other'') (Some ''vc'')
        (Some ''ftp://example.org/'') None None [example_site]
     = ([example_site], error_response 400 (validation_message example_env errs))
       \<and> (''target'', Custom) \<in> set errs"
    by blast
  from 1 2 show ?thesis by blast
qed

text \<open>
  The claim C10 as stated covers every target that fails the shape validation. The empty
  string fails it, but \<open>if (target)\<close> takes it for an absent target: the update is
  answered 200 and \<open>lastAccessed\<close> is written.
\<close>

theorem update_empty_target_accepted:
  "\<not> target_validator []
   \<and> fst (update_route example_env 9 (Some ''abc'') (Some ''vc'') (Some ''v12-01020304050607ab'')
        (Some []) None None [example_site]) = [example_site\<lparr>lastAccessed := 9\<rparr>]
   \<and> status (snd (update_route example_env 9 (Some ''abc'') (Some ''vc'')
        (Some ''v12-01020304050607ab'') (Some []) None None [example_site])) = 200
   \<and> lastAccessed example_site = 3"
  by code_simp

section \<open>Secrets and the responses\<close>

lemma secret_free_check: "secret_free (body (check_route d tq st))"
proof -
  have "secret_free (object [(''domain'', JStr a), (''tld'', jopt b), (''available'', JBool c),
      (''message'', JStr m)])" for a b c m
    by (rule secret_free_objectI) (simp add: secret_free_def)
  then show ?thesis
    unfolding check_route_def Let_def by simp
qed

lemma secret_free_lookup: "secret_free (body (snd (lookup_route now d t st)))"
proof -
  have "secret_free (object
                    [(''domain'', JStr a), (''tld'', JStr b), (''target'', JStr c),
                     (''rawBase'', JStr r), (''title'', jopt x), (''description'', jopt y),
                     (''verified'', JBool v), (''createdAt'', JDate n),
                     (''lastAccessed'', JDate m)])" for a b c r x y v n m
    by (rule secret_free_objectI) (simp add: secret_free_def)
  then show ?thesis
    unfolding lookup_route_def Let_def
    by (simp split: option.splits sum.splits prod.splits)
qed

lemma prop_names_search_result:
  "set (prop_names (search_result s)) \<subseteq> {''domain'', ''tld'', ''title'', ''description''}"
  unfolding search_result_def
  using prop_names_object by (rule subset_trans) simp

lemma secret_free_search: "secret_free (body (search_route e q st))"
proof (cases "truthy q")
  case True
  have "k \<notin> set (prop_names (JArr (map search_result xs)))"
    if "k \<notin> {''domain'', ''tld'', ''title'', ''description''}" for k xs
    using that prop_names_search_result by (induction xs) auto
  then show ?thesis using True by (simp add: search_route_def secret_free_def)
next
  case False
  then show ?thesis by (simp add: search_route_def)
qed

lemma search_results_display_only:
  assumes "body (search_route e q st) = JArr xs" and "x \<in> set xs"
  shows "set (prop_names x) \<subseteq> {''domain'', ''tld'', ''title'', ''description''}"
proof (cases "truthy q")
  case True
  with assms obtain s where "x = search_result s"
    by (auto simp: search_route_def)
  then show ?thesis using prop_names_search_result by simp
next
  case False
  with assms show ?thesis
    by (simp add: search_route_def error_response_def object_def)
qed

lemma secret_free_update: "secret_free (body (snd (update_route e now d t k g ti de st)))"
proof -
  have inner: "secret_free (object
                          [(''domain'', JStr a), (''tld'', JStr b), (''target'', JStr c),
                           (''title'', jopt x), (''description'', jopt y),
                           (''lastAccessed'', JDate n)])" for a b c x y n
    by (rule secret_free_objectI) (simp add: secret_free_def)
  have outer: "secret_free (object [(''success'', JBool True), (''message'', JStr m), (''site'', j)])"
    if "secret_free j" for m j
    using that by (intro secret_free_objectI) (simp add: secret_free_def)
  show ?thesis
    unfolding update_route_def Let_def
    by (simp add: outer inner split: option.splits sum.splits prod.splits)
qed

lemma secret_free_delete: "secret_free (body (snd (delete_route e d t k st)))"
proof -
  have "secret_free (object [(''success'', JBool True), (''message'', JStr m)])" for m
    by (rule secret_free_objectI) (simp add: secret_free_def)
  then show ?thesis
    unfolding delete_route_def Let_def
    by (simp split: option.splits prod.splits)
qed

lemma check_route_rehash: "check_route d tq (rehash f st) = check_route d tq st"
  by (simp add: check_route_def findOne_rehash)

lemma lookup_route_rehash:
  assumes "\<forall>h. (f h = []) = (h = [])"
  shows "snd (lookup_route now d t (rehash f st)) = snd (lookup_route now d t st)"
proof (cases "findOne d t st")
  case None
  then show ?thesis by (simp add: lookup_route_def findOne_rehash)
next
  case (Some p)
  obtain i s where p: "p = (i, s)" by (cases p)
  have v: "validate (s\<lparr>secretKeyHash := f (secretKeyHash s), lastAccessed := now\<rparr>) = validate s"
    using validate_rehash[OF assms, of s] by (simp add: validate_def)
  show ?thesis
    using Some p v by (simp add: lookup_route_def findOne_rehash save_at_def Let_def)
qed

lemma update_route_rehash:
  assumes "\<forall>h. (f h = []) = (h = [])"
  shows "snd (update_route e now d t k g ti de (rehash f st))
       = snd (update_route (e\<lparr>bcrypt_compare := \<lambda>k h. bcrypt_compare e k (f h)\<rparr>) now d t k g ti de st)"
proof (cases "findOne (str_of d) (str_of t) st")
  case None
  then show ?thesis by (simp add: update_route_def findOne_rehash)
next
  case (Some p)
  obtain i s where p: "p = (i, s)" by (cases p)
  have v: "validate ((apply_update now g ti de s)\<lparr>secretKeyHash := f (secretKeyHash s)\<rparr>)
         = validate (apply_update now g ti de s)"
    using validate_rehash[OF assms, of "apply_update now g ti de s"]
    by (simp add: secretKeyHash_apply_update)
  show ?thesis
    using Some p v
    by (simp add: update_route_def findOne_rehash save_at_def apply_update_rehash Let_def)
qed

lemma delete_route_rehash:
  "snd (delete_route e d t k (rehash f st))
     = snd (delete_route (e\<lparr>bcrypt_compare := \<lambda>k h. bcrypt_compare e k (f h)\<rparr>) d t k st)"
  by (cases "findOne (str_of d) (str_of t) st")
     (auto simp: delete_route_def findOne_rehash)

lemma update_delete_same_verdict:
  assumes "truthy k" and "truthy k'"
    and "\<forall>i found. findOne (str_of d) (str_of t) st = Some (i, found) \<longrightarrow>
           bcrypt_compare e (str_of k) (secretKeyHash found)
             = bcrypt_compare e (str_of k') (secretKeyHash found)"
  shows "update_route e now d t k g ti de st = update_route e now d t k' g ti de st"
    and "delete_route e d t k st = delete_route e d t k' st"
  using assms
  by (auto simp: update_route_def delete_route_def split: option.splits)

lemma search_result_display:
  assumes "domain (hide s) = domain s" and "tld (hide s) = tld s"
    and "title (hide s) = title s" and "description (hide s) = description s"
  shows "search_result (hide s) = search_result s"
  using assms by (simp add: search_result_def)

lemma search_route_hidden:
  assumes "\<forall>s. domain (hide s) = domain s \<and> tld (hide s) = tld s
             \<and> title (hide s) = title s \<and> description (hide s) = description s"
    and "text_search e (str_of q) (map hide st) = map hide (text_search e (str_of q) st)"
  shows "search_route e q (map hide st) = search_route e q st"
proof -
  have "map search_result (map hide xs) = map search_result xs" for xs
    using assms(1) by (simp add: search_result_display)
  then have "map search_result (take 20 (map hide xs)) = map search_result (take 20 xs)" for xs
    by (simp add: take_map)
  then show ?thesis
    using assms(2) by (simp add: search_route_def)
qed

text \<open>
  C8. No body that check, lookup, search, update or delete sends has a property called
  \<open>secretKey\<close> or \<open>secretKeyHash\<close> at any depth, and every element of a search
  result has no property beyond \<open>domain\<close>, \<open>tld\<close>, \<open>title\<close> and \<open>description\<close>. The
  stored digests do not reach the responses: check does not depend on them, lookup does
  not as long as a digest stays non-empty (the schema requires one), and update and delete
  depend on them only through the verdict of \<open>bcrypt.compare\<close>. Nor does the secret
  that is presented: two secrets with the same verdict on the document that is found get
  the same answer from update and from delete. The values of a search result are the
  four display fields of the documents that the text query matched: when \<open>hide\<close>
  changes documents in any other path (the digest, the target) and the matching of the
  text query goes along with it, the response of search is the same.
\<close>

theorem responses_hide_secret:
  "secret_free (body (check_route d tq st))
   \<and> secret_free (body (snd (lookup_route now d t st)))
   \<and> secret_free (body (search_route e q st))
   \<and> secret_free (body (snd (update_route e now dd tt k g ti de st)))
   \<and> secret_free (body (snd (delete_route e dd tt k st)))
   \<and> (\<forall>xs x. body (search_route e q st) = JArr xs \<and> x \<in> set xs \<longrightarrow>
         set (prop_names x) \<subseteq> {''domain'', ''tld'', ''title'', ''description''})
   \<and> check_route d tq (rehash f st) = check_route d tq st
   \<and> ((\<forall>h. (f h = []) = (h = [])) \<longrightarrow>
         snd (lookup_route now d t (rehash f st)) = snd (lookup_route now d t st)
         \<and> snd (update_route e now dd tt k g ti de (rehash f st))
             = snd (update_route (e\<lparr>bcrypt_compare := \<lambda>k h. bcrypt_compare e k (f h)\<rparr>)
                      now dd tt k g ti de st)
         \<and> snd (delete_route e dd tt k (rehash f st))
             = snd (delete_route (e\<lparr>bcrypt_compare := \<lambda>k h. bcrypt_compare e k (f h)\<rparr>)
                      dd tt k st))
   \<and> (truthy k \<and> truthy k'
        \<and> (\<forall>i found. findOne (str_of dd) (str_of tt) st = Some (i, found) \<longrightarrow>
              bcrypt_compare e (str_of k) (secretKeyHash found)
                = bcrypt_compare e (str_of k') (secretKeyHash found)) \<longrightarrow>
         update_route e now dd tt k g ti de st = update_route e now dd tt k' g ti de st
         \<and> delete_route e dd tt k st = delete_route e dd tt k' st)
   \<and> ((\<forall>s. domain (hide s) = domain s \<and> tld (hide s) = tld s
             \<and> title (hide s) = title s \<and> description (hide s) = description s)
        \<and> text_search e (str_of q) (map hide st) = map hide (text_search e (str_of q) st) \<longrightarrow>
         search_route e q (map hide st) = search_route e q st)
   \<and> (text_search e (str_of q) (rehash f st) = rehash f (text_search e (str_of q) st) \<longrightarrow>
         search_route e q (rehash f st) = search_route e q st)"
proof -
  have names: "secret_free (body (check_route d tq st))"
    "secret_free (body (snd (lookup_route now d t st)))"
    "secret_free (body (search_route e q st))"
    "secret_free (body (snd (update_route e now dd tt k g ti de st)))"
    "secret_free (body (snd (delete_route e dd tt k st)))"
    by (rule secret_free_check secret_free_lookup secret_free_search secret_free_update
        secret_free_delete)+
  have display: "\<forall>xs x. body (search_route e q st) = JArr xs \<and> x \<in> set xs \<longrightarrow>
         set (prop_names x) \<subseteq> {''domain'', ''tld'', ''title'', ''description''}"
  proof (intro allI impI)
    fix xs x
    assume "body (search_route e q st) = JArr xs \<and> x \<in> set xs"
    then show "set (prop_names x) \<subseteq> {''domain'', ''tld'', ''title'', ''description''}"
      using search_results_display_only[of e q st xs x] by simp
  qed
  have digest: "(\<forall>h. (f h = []) = (h = [])) \<longrightarrow>
         snd (lookup_route now d t (rehash f st)) = snd (lookup_route now d t st)
         \<and> snd (update_route e now dd tt k g ti de (rehash f st))
             = snd (update_route (e\<lparr>bcrypt_compare := \<lambda>k h. bcrypt_compare e k (f h)\<rparr>)
                      now dd tt k g ti de st)
         \<and> snd (delete_route e dd tt k (rehash f st))
             = snd (delete_route (e\<lparr>bcrypt_compare := \<lambda>k h. bcrypt_compare e k (f h)\<rparr>)
                      dd tt k st)"
  proof (intro impI conjI)
    assume nz: "\<forall>h. (f h = []) = (h = [])"
    show "snd (lookup_route now d t (rehash f st)) = snd (lookup_route now d t st)"
      using nz by (rule lookup_route_rehash)
    show "snd (update_route e now dd tt k g ti de (rehash f st))
             = snd (update_route (e\<lparr>bcrypt_compare := \<lambda>k h. bcrypt_compare e k (f h)\<rparr>)
                      now dd tt k g ti de st)"
      using nz by (rule update_route_rehash)
    show "snd (delete_route e dd tt k (rehash f st))
             = snd (delete_route (e\<lparr>bcrypt_compare := \<lambda>k h. bcrypt_compare e k (f h)\<rparr>)
                      dd tt k st)"
      by (rule delete_route_rehash)
  qed
  have verdict: "truthy k \<and> truthy k'
        \<and> (\<forall>i found. findOne (str_of dd) (str_of tt) st = Some (i, found) \<longrightarrow>
              bcrypt_compare e (str_of k) (secretKeyHash found)
                = bcrypt_compare e (str_of k') (secretKeyHash found)) \<longrightarrow>
         update_route e now dd tt k g ti de st = update_route e now dd tt k' g ti de st
         \<and> delete_route e dd tt k st = delete_route e dd tt k' st"
  proof (intro impI conjI)
    assume a: "truthy k \<and> truthy k'
        \<and> (\<forall>i found. findOne (str_of dd) (str_of tt) st = Some (i, found) \<longrightarrow>
              bcrypt_compare e (str_of k) (secretKeyHash found)
                = bcrypt_compare e (str_of k') (secretKeyHash found))"
    then have k: "truthy k" and k': "truthy k'"
      and v: "\<forall>i found. findOne (str_of dd) (str_of tt) st = Some (i, found) \<longrightarrow>
              bcrypt_compare e (str_of k) (secretKeyHash found)
                = bcrypt_compare e (str_of k') (secretKeyHash found)"
      by simp_all
    show "update_route e now dd tt k g ti de st = update_route e now dd tt k' g ti de st"
      using k k' v by (rule update_delete_same_verdict(1))
    show "delete_route e dd tt k st = delete_route e dd tt k' st"
      using k k' v by (rule update_delete_same_verdict(2))
  qed
  have hidden: "(\<forall>s. domain (hide s) = domain s \<and> tld (hide s) = tld s
             \<and> title (hide s) = title s \<and> description (hide s) = description s)
        \<and> text_search e (str_of q) (map hide st) = map hide (text_search e (str_of q) st) \<longrightarrow>
         search_route e q (map hide st) = search_route e q st"
    using search_route_hidden[of hide e q st] by simp
  have rehashed: "text_search e (str_of q) (rehash f st) = rehash f (text_search e (str_of q) st) \<longrightarrow>
         search_route e q (rehash f st) = search_route e q st"
    using search_route_hidden[of "\<lambda>s. s\<lparr>secretKeyHash := f (secretKeyHash s)\<rparr>" e q st]
    by (simp add: rehash_def)
  from names display check_route_rehash[of d tq f st] digest verdict hidden rehashed
  show ?thesis by (intro conjI)
qed

theorem responses_hide_secret_witness:
  "body (search_route example_env (Some ''Example'') [example_site])
     = JArr [search_result example_site]
   \<and> set (prop_names (search_result example_site))
       \<subseteq> {''domain'', ''tld'', ''title'', ''description''}
   \<and> (\<forall>h::string. (rev h = []) = (h = []))
   \<and> secretKeyHash (hd (rehash rev [example_site])) = ''ba70605040302010-21v$$''
   \<and> snd (lookup_route 9 ''abc'' ''vc'' (rehash rev [example_site]))
       = snd (lookup_route 9 ''abc'' ''vc'' [example_site])
   \<and> secret_free (body (snd (lookup_route 9 ''abc'' ''vc'' [example_site])))
   \<and> delete_route example_env (Some ''abc'') (Some ''vc'') (Some ''guess'') [example_site]
       = delete_route example_env (Some ''abc'') (Some ''vc'') (Some ''v12-01020304050607aa'')
           [example_site]
   \<and> search_route example_env (Some ''Example'')
         (map (\<lambda>s. s\<lparr>target := ''https://elsewhere.example/'', secretKeyHash := ''x''\<rparr>)
            [example_site])
       = search_route example_env (Some ''Example'') [example_site]
   \<and> search_route example_env (Some ''Example'') (rehash rev [example_site])
       = search_route example_env (Some ''Example'') [example_site]"
proof -
  have b: "body (search_route example_env (Some ''Example'') [example_site])
     = JArr [search_result example_site]"
    by code_simp
  have m: "search_result example_site \<in> set [search_result example_site]" by simp
  have r: "\<forall>h::string. (rev h = []) = (h = [])" by simp
  have h: "secretKeyHash (hd (rehash rev [example_site])) = ''ba70605040302010-21v$$''"
    by code_simp
  have k: "truthy (Some ''guess'')" "truthy (Some ''v12-01020304050607aa'')"
    by (simp_all add: truthy_def)
  have c: "bcrypt_compare example_env (str_of (Some ''guess'')) (secretKeyHash example_site)
      = bcrypt_compare example_env (str_of (Some ''v12-01020304050607aa''))
          (secretKeyHash example_site)"
    by code_simp
  have v: "\<forall>i found. findOne (str_of (Some ''abc'')) (str_of (Some ''vc'')) [example_site]
        = Some (i, found) \<longrightarrow>
      bcrypt_compare example_env (str_of (Some ''guess'')) (secretKeyHash found)
      = bcrypt_compare example_env (str_of (Some ''v12-01020304050607aa''))
          (secretKeyHash found)"
    using c by (simp add: str_of_def example_findOne)
  note t = responses_hide_secret[where e=example_env and q="Some ''Example''"
      and st="[example_site]" and f=rev and now=9 and d="''abc''" and t="''vc''"
      and dd="Some ''abc''" and tt="Some ''vc''" and k="Some ''guess''"
      and k'="Some ''v12-01020304050607aa''" and tq=None and g=None and ti=None and de=None
      and hide="\<lambda>s. s\<lparr>target := ''https://elsewhere.example/'', secretKeyHash := ''x''\<rparr>"]
  from t have display: "\<forall>xs x. body (search_route example_env (Some ''Example'') [example_site])
        = JArr xs \<and> x \<in> set xs \<longrightarrow>
      set (prop_names x) \<subseteq> {''domain'', ''tld'', ''title'', ''description''}"
    by (elim conjE) assumption
  from display b m have 1: "set (prop_names (search_result example_site))
       \<subseteq> {''domain'', ''tld'', ''title'', ''description''}"
    by blast
  from t have digest: "(\<forall>h::string. (rev h = []) = (h = [])) \<longrightarrow>
      snd (lookup_route 9 ''abc'' ''vc'' (rehash rev [example_site]))
        = snd (lookup_route 9 ''abc'' ''vc'' [example_site])
      \<and> snd (update_route example_env 9 (Some ''abc'') (Some ''vc'') (Some ''guess'') None None None
               (rehash rev [example_site]))
          = snd (update_route
                   (example_env\<lparr>bcrypt_compare := \<lambda>k h. bcrypt_compare example_env k (rev h)\<rparr>)
                   9 (Some ''abc'') (Some ''vc'') (Some ''guess'') None None None [example_site])
      \<and> snd (delete_route example_env (Some ''abc'') (Some ''vc'') (Some ''guess'')
               (rehash rev [example_site]))
          = snd (delete_route
                   (example_env\<lparr>bcrypt_compare := \<lambda>k h. bcrypt_compare example_env k (rev h)\<rparr>)
                   (Some ''abc'') (Some ''vc'') (Some ''guess'') [example_site])"
    by (elim conjE) assumption
  from digest r have 2: "snd (lookup_route 9 ''abc'' ''vc'' (rehash rev [example_site]))
       = snd (lookup_route 9 ''abc'' ''vc'' [example_site])"
    by (elim impE conjE) assumption
  from t have 3: "secret_free (body (snd (lookup_route 9 ''abc'' ''vc'' [example_site])))"
    by (elim conjE) assumption
  from t have verdict: "truthy (Some ''guess'') \<and> truthy (Some ''v12-01020304050607aa'')
      \<and> (\<forall>i found. findOne (str_of (Some ''abc'')) (str_of (Some ''vc'')) [example_site]
              = Some (i, found) \<longrightarrow>
            bcrypt_compare example_env (str_of (Some ''guess'')) (secretKeyHash found)
              = bcrypt_compare example_env (str_of (Some ''v12-01020304050607aa''))
                  (secretKeyHash found)) \<longrightarrow>
      update_route example_env 9 (Some ''abc'') (Some ''vc'') (Some ''guess'') None None None
          [example_site]
        = update_route example_env 9 (Some ''abc'') (Some ''vc'') (Some ''v12-01020304050607aa'')
            None None None [example_site]
      \<and> delete_route example_env (Some ''abc'') (Some ''vc'') (Some ''guess'') [example_site]
        = delete_route example_env (Some ''abc'') (Some ''vc'') (Some ''v12-01020304050607aa'')
            [example_site]"
    by (elim conjE) assumption
  have 4: "delete_route example_env (Some ''abc'') (Some ''vc'') (Some ''guess'')
        [example_site]
       = delete_route example_env (Some ''abc'') (Some ''vc'') (Some ''v12-01020304050607aa'')
           [example_site]"
    using mp[OF verdict] k v by simp
  have keep: "\<forall>s::site. domain (s\<lparr>target := ''https://elsewhere.example/'', secretKeyHash := ''x''\<rparr>)
                = domain s
      \<and> tld (s\<lparr>target := ''https://elsewhere.example/'', secretKeyHash := ''x''\<rparr>) = tld s
      \<and> title (s\<lparr>target := ''https://elsewhere.example/'', secretKeyHash := ''x''\<rparr>) = title s
      \<and> description (s\<lparr>target := ''https://elsewhere.example/'', secretKeyHash := ''x''\<rparr>)
          = description s"
    by simp
  have along: "text_search example_env (str_of (Some ''Example''))
        (map (\<lambda>s. s\<lparr>target := ''https://elsewhere.example/'', secretKeyHash := ''x''\<rparr>)
           [example_site])
      = map (\<lambda>s. s\<lparr>target := ''https://elsewhere.example/'', secretKeyHash := ''x''\<rparr>)
          (text_search example_env (str_of (Some ''Example'')) [example_site])"
    by code_simp
  have along': "text_search example_env (str_of (Some ''Example'')) (rehash rev [example_site])
      = rehash rev (text_search example_env (str_of (Some ''Example'')) [example_site])"
    by code_simp
  from t have imp5: "(\<forall>s::site. domain (s\<lparr>target := ''https://elsewhere.example/'', secretKeyHash := ''x''\<rparr>)
                = domain s
      \<and> tld (s\<lparr>target := ''https://elsewhere.example/'', secretKeyHash := ''x''\<rparr>) = tld s
      \<and> title (s\<lparr>target := ''https://elsewhere.example/'', secretKeyHash := ''x''\<rparr>) = title s
      \<and> description (s\<lparr>target := ''https://elsewhere.example/'', secretKeyHash := ''x''\<rparr>)
          = description s)
      \<and> text_search example_env (str_of (Some ''Example''))
        (map (\<lambda>s. s\<lparr>target := ''https://elsewhere.example/'', secretKeyHash := ''x''\<rparr>)
           [example_site])
      = map (\<lambda>s. s\<lparr>target := ''https://elsewhere.example/'', secretKeyHash := ''x''\<rparr>)
          (text_search example_env (str_of (Some ''Example'')) [example_site])
      \<longrightarrow> search_route example_env (Some ''Example'')
         (map (\<lambda>s. s\<lparr>target := ''https://elsewhere.example/'', secretKeyHash := ''x''\<rparr>)
            [example_site])
       = search_route example_env (Some ''Example'') [example_site]"
    by (elim conjE) assumption
  have 5: "search_route example_env (Some ''Example'')
         (map (\<lambda>s. s\<lparr>target := ''https://elsewhere.example/'', secretKeyHash := ''x''\<rparr>)
            [example_site])
       = search_route example_env (Some ''Example'') [example_site]"
    by (rule mp[OF imp5]) (rule conjI[OF keep along])
  from t have imp6: "text_search example_env (str_of (Some ''Example'')) (rehash rev [example_site])
      = rehash rev (text_search example_env (str_of (Some ''Example'')) [example_site])
      \<longrightarrow> search_route example_env (Some ''Example'') (rehash rev [example_site])
       = search_route example_env (Some ''Example'') [example_site]"
    by (elim conjE) assumption
  have 6: "search_route example_env (Some ''Example'') (rehash rev [example_site])
       = search_route example_env (Some ''Example'') [example_site]"
    by (rule mp[OF imp6]) (rule along')
  from b 1 r h 2 3 4 5 6 show ?thesis by (intro conjI)
qed

section \<open>The protocol handler and an unreachable target\<close>

lemma resolve_registered:
  assumes "split CHR ''.'' hostname = d # t # others" and "d \<noteq> []" and "t \<noteq> []"
    and "net_fetch p (lookup_url d t) = Fulfils r" and "ok r" and "json_body r = JsonTarget tg"
  shows "resolve p hostname =
     (case net_fetch p tg of
        Throws \<Rightarrow> Returned (Html (failed_html hostname))
      | Rejects \<Rightarrow> Rejected
      | Fulfils c \<Rightarrow> Returned (Content c))"
  using assms by (simp add: resolve_def return_fetch_def)

text \<open>
  C2. The claim: when the lookup succeeds and the fetch of the target fails, the handler
  answers the fallback document. The handler returns the promise of \<open>net.fetch\<close> from
  inside its \<open>try\<close> block without awaiting it, so the \<open>catch\<close> that builds the document
  sees only an exception thrown by the call itself (\<open>resolve_registered\<close>). When the
  target is unreachable the promise is rejected and so is the promise of the handler: no
  document is returned.
\<close>

theorem resolve_target_unreachable:
  assumes "pathname \<noteq> ''/favicon.ico''"
    and "hostname \<noteq> ''register.at''" and "hostname \<noteq> ''lookin.at''"
    and "hostname \<noteq> ''v12browser.vc''"
    and "split CHR ''.'' hostname = d # t # others" and "d \<noteq> []" and "t \<noteq> []"
    and "net_fetch p (lookup_url d t) = Fulfils r" and "ok r" and "json_body r = JsonTarget tg"
    and "net_fetch p tg = Rejects"
  shows "virt_handler p hostname pathname = Rejected"
proof -
  have "resolve p hostname = Rejected"
    using resolve_registered[OF assms(5-10)] assms(11) by simp
  then show ?thesis
    using assms(1-4) by (simp add: virt_handler_def)
qed

theorem resolve_target_unreachable_witness:
  "net_fetch example_platform (lookup_url ''abc'' ''vc'')
     = Fulfils \<lparr> ok = True, json_body = JsonTarget ''https://down.example/'', content = [] \<rparr>
   \<and> net_fetch example_platform ''https://down.example/'' = Rejects
   \<and> virt_handler example_platform ''abc.vc'' ''/'' = Rejected"
proof -
  have l: "net_fetch example_platform (lookup_url ''abc'' ''vc'')
     = Fulfils \<lparr> ok = True, json_body = JsonTarget ''https://down.example/'', content = [] \<rparr>"
    by code_simp
  have f: "net_fetch example_platform ''https://down.example/'' = Rejects"
    by code_simp
  have s: "split CHR ''.'' ''abc.vc'' = ''abc'' # ''vc'' # []" by code_simp
  have n: "''/'' \<noteq> ''/favicon.ico''" "''abc.vc'' \<noteq> ''register.at''" "''abc.vc'' \<noteq> ''lookin.at''"
    "''abc.vc'' \<noteq> ''v12browser.vc''" "''abc'' \<noteq> []" "''vc'' \<noteq> []"
    by simp_all
  have o: "ok \<lparr> ok = True, json_body = JsonTarget ''https://down.example/'', content = [] \<rparr>"
    "json_body \<lparr> ok = True, json_body = JsonTarget ''https://down.example/'', content = [] \<rparr>
       = JsonTarget ''https://down.example/''"
    by simp_all
  from resolve_target_unreachable[OF n(1-4) s n(5,6) l o f]
  have "virt_handler example_platform ''abc.vc'' ''/'' = Rejected" .
  with l f show ?thesis by blast
qed

end
